theory Spec2Isabelle
  imports Main "HOL-Library.Word" "HOL-Library.Char_ord" "HOL-Library.List_Lexorder"
begin

unbundle bit_operations_syntax

section \<open>The ephemeral record store (store.go)\<close>

text \<open>
  Instants and durations. Go's \<open>time.Time\<close> values obtained from \<open>time.Now()\<close> carry a
  monotonic clock reading, and \<open>After\<close> compares those readings; an instant is modelled
  as the integer number of nanoseconds on that clock, a \<open>time.Duration\<close> as an integer
  number of nanoseconds (it may be negative). Instants are unbounded here.
\<close>

type_synonym Time = int
type_synonym Duration = int

definition Minute :: Duration where
  "Minute = 60 * 1000000000"

text \<open>
  Errors returned by a store: \<open>redis.Nil\<close>, the sentinel for an absent key, or any other
  (transport, operational) error, carried with its message.
\<close>

datatype error = redis_Nil | Failure string

text \<open>
  The \<open>Store\<close> interface: \<open>GetDel(ctx, key) (string, error)\<close> and
  \<open>SetEx(ctx, key, val, exp) error\<close>. An implementation threads its own state \<open>'s\<close>;
  a Go \<open>error\<close> result is \<open>None\<close> for \<open>nil\<close>.
\<close>

record 's Store =
  GetDel :: "string \<Rightarrow> 's \<Rightarrow> (string \<times> error option) \<times> 's"
  SetEx :: "string \<Rightarrow> string \<Rightarrow> Duration \<Rightarrow> 's \<Rightarrow> error option \<times> 's"

text \<open>\<open>type value struct { exp time.Time; val string }\<close>\<close>

record mem_value =
  exp :: Time
  val :: string

text \<open>
  \<open>type memStore struct { m sync.Mutex; d map[string]value }\<close>. Both methods hold the
  mutex from their first statement to their return, so each call is one atomic step on the
  map; the mutex itself carries no data.
\<close>

record memStore =
  d :: "string \<rightharpoonup> mem_value"

definition NewMemStore :: memStore where
  "NewMemStore = \<lparr>d = Map.empty\<rparr>"

text \<open>
  \<open>memStore.GetDel\<close>; \<open>now\<close> is the reading of \<open>time.Now()\<close> taken inside the call.
  \<open>time.Now().After(val.exp)\<close> is the strict comparison \<open>now > exp\<close>.
\<close>

definition memStore_GetDel :: "Time \<Rightarrow> string \<Rightarrow> memStore \<Rightarrow> (string \<times> error option) \<times> memStore" where
  "memStore_GetDel now key ms =
     (case d ms key of
        None \<Rightarrow> (('''', Some redis_Nil), ms)
      | Some v \<Rightarrow>
          if now > exp v
          then (('''', Some redis_Nil), ms\<lparr>d := (d ms)(key := None)\<rparr>)
          else ((val v, None), ms\<lparr>d := (d ms)(key := None)\<rparr>))"

text \<open>\<open>memStore.SetEx\<close>: installs or overwrites, expiry \<open>time.Now().Add(exp)\<close>, returns \<open>nil\<close>.\<close>

definition memStore_SetEx :: "Time \<Rightarrow> string \<Rightarrow> string \<Rightarrow> Duration \<Rightarrow> memStore \<Rightarrow> error option \<times> memStore" where
  "memStore_SetEx now key v e ms =
     (None, ms\<lparr>d := (d ms)(key \<mapsto> \<lparr>exp = now + e, val = v\<rparr>)\<rparr>)"

text \<open>The in-process store as a \<open>Store\<close>, for calls that read the clock at \<open>now\<close>.\<close>

definition mem_Store :: "Time \<Rightarrow> memStore Store" where
  "mem_Store now = \<lparr>GetDel = memStore_GetDel now, SetEx = memStore_SetEx now\<rparr>"

text \<open>
  \<open>redisStore\<close> hands both operations to the go-redis client \<open>rs.r\<close>
  (\<open>GetDel(ctx, key).Result()\<close>, \<open>SetEX(ctx, key, val, exp).Err()\<close>); the client with its
  server is a \<open>Store\<close> given from outside.
\<close>

definition NewRedisStore :: "'s Store \<Rightarrow> 's Store" where
  "NewRedisStore r = \<lparr>GetDel = (\<lambda>key. GetDel r key), SetEx = (\<lambda>key v e. SetEx r key v e)\<rparr>"

text \<open>
  A history of calls on one \<open>memStore\<close>, in the order in which the calls acquire the
  mutex, each with the clock reading it takes.
\<close>

datatype call = Call_GetDel Time string | Call_SetEx Time string string Duration

fun apply_call :: "call \<Rightarrow> memStore \<Rightarrow> memStore" where
  "apply_call (Call_GetDel now key) ms = snd (memStore_GetDel now key ms)"
| "apply_call (Call_SetEx now key v e) ms = snd (memStore_SetEx now key v e ms)"

fun run_calls :: "call list \<Rightarrow> memStore \<Rightarrow> memStore" where
  "run_calls [] ms = ms"
| "run_calls (c # cs) ms = run_calls cs (apply_call c ms)"

fun writes :: "string \<Rightarrow> call \<Rightarrow> bool" where
  "writes key (Call_GetDel now k) = False"
| "writes key (Call_SetEx now k v e) = (k = key)"

fun touches :: "string \<Rightarrow> call \<Rightarrow> bool" where
  "touches key (Call_GetDel now k) = (k = key)"
| "touches key (Call_SetEx now k v e) = (k = key)"

text \<open>
  \<open>N\<close> callers of \<open>GetDel\<close> on one key: the mutex serialises them, so their effect is that
  of running the calls one after the other in the order of acquisition; \<open>ts\<close> lists the
  clock readings in that order. The result lists what each caller observes.
\<close>

fun GetDel_all :: "Time list \<Rightarrow> string \<Rightarrow> memStore \<Rightarrow> (string \<times> error option) list \<times> memStore" where
  "GetDel_all [] key ms = ([], ms)"
| "GetDel_all (t # ts) key ms =
     (let (r, ms') = memStore_GetDel t key ms;
          (rs, ms'') = GetDel_all ts key ms'
      in (r # rs, ms''))"

definition NotFound :: "string \<times> error option" where
  "NotFound = ('''', Some redis_Nil)"

section \<open>A reference model of the JSON library\<close>

text \<open>
  The handlers call \<open>encoding/json\<close>, which is not part of the repository; they take it
  as a parameter (\<open>encoding_json\<close> below). This section gives one executable instance,
  used to run the handlers on concrete requests. It follows the library on well-formed
  UTF-8 documents: the scanner's grammar, \<open>Decoder.Decode\<close> reading one value from the
  body, decoding into the typed structs (a \<open>null\<close> leaves a string, boolean or struct as
  it is and sets a slice or map to \<open>nil\<close>, a value of the wrong kind is an
  \<open>UnmarshalTypeError\<close>, unknown keys are skipped, keys match field names without regard
  to ASCII case, a later member for the same key overrides an earlier one), and
  \<open>Marshal\<close> with HTML escaping. Not modelled: replacement of ill-formed UTF-8 by U+FFFD,
  the non-ASCII case folds of key names, the reuse of a previously decoded slice's elements
  when a key is repeated, and the limit on nesting depth. Control characters other than
  newline, carriage return and tab are written \<open>\u00XX\<close>.

  A parsed document. A string or key keeps its literal text between the quotes (escapes
  as written), a number its literal; \<open>unquote\<close> decodes a string literal.
\<close>

datatype json =
    JNull
  | JBool bool
  | JNumber string
  | JString string
  | JArray "json list"
  | JObject "(string \<times> json) list"

definition is_space :: "char \<Rightarrow> bool" where
  "is_space c \<longleftrightarrow> c = CHR '' '' \<or> c = CHR 0x09 \<or> c = CHR 0x0A \<or> c = CHR 0x0D"

definition is_digit :: "char \<Rightarrow> bool" where
  "is_digit c \<longleftrightarrow> (48::nat) \<le> of_char c \<and> (of_char c :: nat) \<le> 57"

definition is_hex :: "char \<Rightarrow> bool" where
  "is_hex c \<longleftrightarrow>
     (let n = (of_char c :: nat)
      in (48 \<le> n \<and> n \<le> 57) \<or> (97 \<le> n \<and> n \<le> 102) \<or> (65 \<le> n \<and> n \<le> 70))"

definition hex_value :: "char \<Rightarrow> nat" where
  "hex_value c =
     (let n = (of_char c :: nat)
      in if n \<le> 57 then n - 48 else if 97 \<le> n then n - 87 else n - 55)"

definition skip_space :: "string \<Rightarrow> string" where
  "skip_space = dropWhile is_space"

text \<open>
  \<open>scan_string\<close> reads a string literal after its opening quote and returns the
  literal text and the input after the closing quote.
\<close>

fun scan_string :: "string \<Rightarrow> (string \<times> string) option" where
  "scan_string [] = None"
| "scan_string (c # cs) =
     (if c = CHR 0x22 then Some ([], cs)
      else if c = CHR 0x5C then
        (case cs of
           [] \<Rightarrow> None
         | e # cs' \<Rightarrow>
             if e \<in> set [CHR 0x22, CHR 0x5C, CHR ''/'', CHR ''b'', CHR ''f'', CHR ''n'', CHR ''r'', CHR ''t'']
             then map_option (\<lambda>(b, r). (c # e # b, r)) (scan_string cs')
             else if e = CHR ''u'' then
               (case cs' of
                  h1 # h2 # h3 # h4 # r \<Rightarrow>
                    if is_hex h1 \<and> is_hex h2 \<and> is_hex h3 \<and> is_hex h4
                    then map_option (\<lambda>(b, r'). (c # e # h1 # h2 # h3 # h4 # b, r')) (scan_string r)
                    else None
                | _ \<Rightarrow> None)
             else None)
      else if (of_char c :: nat) < 0x20 then None
      else map_option (\<lambda>(b, r). (c # b, r)) (scan_string cs))"

definition utf8 :: "nat \<Rightarrow> string" where
  "utf8 n =
     (if n < 0x80 then [char_of n]
      else if n < 0x800 then [char_of (0xC0 + n div 0x40), char_of (0x80 + n mod 0x40)]
      else if n < 0x10000 then
        [char_of (0xE0 + n div 0x1000), char_of (0x80 + n div 0x40 mod 0x40), char_of (0x80 + n mod 0x40)]
      else
        [char_of (0xF0 + n div 0x40000), char_of (0x80 + n div 0x1000 mod 0x40),
         char_of (0x80 + n div 0x40 mod 0x40), char_of (0x80 + n mod 0x40)])"

definition hex4 :: "char \<Rightarrow> char \<Rightarrow> char \<Rightarrow> char \<Rightarrow> nat" where
  "hex4 h1 h2 h3 h4 = ((hex_value h1 * 16 + hex_value h2) * 16 + hex_value h3) * 16 + hex_value h4"

definition unescape :: "char \<Rightarrow> char" where
  "unescape e =
     (if e = CHR ''b'' then CHR 0x08 else if e = CHR ''f'' then CHR 0x0C
      else if e = CHR ''n'' then CHR 0x0A else if e = CHR ''r'' then CHR 0x0D
      else if e = CHR ''t'' then CHR 0x09 else e)"

fun unquote :: "string \<Rightarrow> string" where
  "unquote [] = []"
| "unquote (c # cs) =
     (if c = CHR 0x5C then
        (case cs of
           [] \<Rightarrow> []
         | e # cs' \<Rightarrow>
             if e = CHR ''u'' then
               (case cs' of
                  h1 # h2 # h3 # h4 # r \<Rightarrow>
                    (let cp = hex4 h1 h2 h3 h4
                     in if 0xD800 \<le> cp \<and> cp < 0xDC00 then
                          (case r of
                             b # u # l1 # l2 # l3 # l4 # r' \<Rightarrow>
                               (let lo = hex4 l1 l2 l3 l4
                                in if b = CHR 0x5C \<and> u = CHR ''u'' \<and> 0xDC00 \<le> lo \<and> lo < 0xE000
                                   then utf8 (0x10000 + (cp - 0xD800) * 0x400 + (lo - 0xDC00)) @ unquote r'
                                   else utf8 0xFFFD @ unquote r)
                           | _ \<Rightarrow> utf8 0xFFFD @ unquote r)
                        else if 0xDC00 \<le> cp \<and> cp < 0xE000 then utf8 0xFFFD @ unquote r
                        else utf8 cp @ unquote r)
                | _ \<Rightarrow> [])
             else unescape e # unquote cs')
      else c # unquote cs)"

text \<open>
  Numbers: an optional minus, \<open>0\<close> or a digit sequence without leading zero, an optional
  fraction, an optional exponent.
\<close>

definition scan_digits :: "string \<Rightarrow> (string \<times> string) option" where
  "scan_digits s = (if takeWhile is_digit s = [] then None else Some (takeWhile is_digit s, dropWhile is_digit s))"

definition scan_number :: "string \<Rightarrow> (string \<times> string) option" where
  "scan_number s =
     (let (sign, s1) = (case s of c # r \<Rightarrow> if c = CHR ''-'' then ([c], r) else ([], s) | [] \<Rightarrow> ([], s))
      in case scan_digits s1 of
           None \<Rightarrow> None
         | Some (ip, s2) \<Rightarrow>
             if 1 < length ip \<and> hd ip = CHR ''0'' then None
             else
               (case (case s2 of
                        c # r \<Rightarrow>
                          if c = CHR ''.'' then map_option (\<lambda>(f, r'). (c # f, r')) (scan_digits r)
                          else Some ([], s2)
                      | [] \<Rightarrow> Some ([], s2)) of
                  None \<Rightarrow> None
                | Some (frac, s3) \<Rightarrow>
                    (case (case s3 of
                             c # r \<Rightarrow>
                               if c = CHR ''e'' \<or> c = CHR ''E'' then
                                 (case r of
                                    g # r' \<Rightarrow>
                                      if g = CHR ''+'' \<or> g = CHR ''-''
                                      then map_option (\<lambda>(x, r''). (c # g # x, r'')) (scan_digits r')
                                      else map_option (\<lambda>(x, r''). (c # x, r'')) (scan_digits r)
                                  | [] \<Rightarrow> None)
                               else Some ([], s3)
                           | [] \<Rightarrow> Some ([], s3)) of
                       None \<Rightarrow> None
                     | Some (ex, s4) \<Rightarrow> Some (sign @ ip @ frac @ ex, s4))))"

definition scan_literal :: "string \<Rightarrow> (json \<times> string) option" where
  "scan_literal s =
     (if take 4 s = ''null'' then Some (JNull, drop 4 s)
      else if take 4 s = ''true'' then Some (JBool True, drop 4 s)
      else if take 5 s = ''false'' then Some (JBool False, drop 5 s)
      else map_option (\<lambda>(l, r). (JNumber l, r)) (scan_number s))"

text \<open>
  The parser, by recursive descent. The first argument bounds the number of nested calls;
  \<open>json_value\<close> supplies twice the length of the input plus two.
\<close>

fun parse_value :: "nat \<Rightarrow> string \<Rightarrow> (json \<times> string) option"
  and parse_elements :: "nat \<Rightarrow> string \<Rightarrow> (json list \<times> string) option"
  and parse_members :: "nat \<Rightarrow> string \<Rightarrow> ((string \<times> json) list \<times> string) option"
where
  "parse_value 0 s = None"
| "parse_value (Suc n) s =
     (case skip_space s of
        [] \<Rightarrow> None
      | c # cs \<Rightarrow>
          if c = CHR ''{'' then
            (case skip_space cs of
               [] \<Rightarrow> None
             | c' # r \<Rightarrow>
                 if c' = CHR ''}'' then Some (JObject [], r)
                 else map_option (\<lambda>(ms, r'). (JObject ms, r')) (parse_members n cs))
          else if c = CHR ''['' then
            (case skip_space cs of
               [] \<Rightarrow> None
             | c' # r \<Rightarrow>
                 if c' = CHR '']'' then Some (JArray [], r)
                 else map_option (\<lambda>(vs, r'). (JArray vs, r')) (parse_elements n cs))
          else if c = CHR 0x22 then map_option (\<lambda>(b, r). (JString b, r)) (scan_string cs)
          else scan_literal (c # cs))"
| "parse_elements 0 s = None"
| "parse_elements (Suc n) s =
     (case parse_value n s of
        None \<Rightarrow> None
      | Some (v, r) \<Rightarrow>
          (case skip_space r of
             [] \<Rightarrow> None
           | c # r' \<Rightarrow>
               if c = CHR '','' then map_option (\<lambda>(vs, r''). (v # vs, r'')) (parse_elements n r')
               else if c = CHR '']'' then Some ([v], r')
               else None))"
| "parse_members 0 s = None"
| "parse_members (Suc n) s =
     (case skip_space s of
        [] \<Rightarrow> None
      | q # s1 \<Rightarrow>
          if q \<noteq> CHR 0x22 then None
          else
            (case scan_string s1 of
               None \<Rightarrow> None
             | Some (k, s2) \<Rightarrow>
                 (case skip_space s2 of
                    [] \<Rightarrow> None
                  | c # s3 \<Rightarrow>
                      if c \<noteq> CHR '':'' then None
                      else
                        (case parse_value n s3 of
                           None \<Rightarrow> None
                         | Some (v, s4) \<Rightarrow>
                             (case skip_space s4 of
                                [] \<Rightarrow> None
                              | c' # s5 \<Rightarrow>
                                  if c' = CHR '','' then
                                    map_option (\<lambda>(ms, r). ((k, v) # ms, r)) (parse_members n s5)
                                  else if c' = CHR ''}'' then Some ([(k, v)], s5)
                                  else None)))))"

definition json_value :: "string \<Rightarrow> (json \<times> string) option" where
  "json_value s = parse_value (2 * length s + 2) s"

text \<open>
  \<open>Marshal\<close> of a Go string (\<open>escapeHTML\<close> on): quote, backslash, control characters,
  \<open><\<close>, \<open>>\<close>, \<open>&\<close>, U+2028 and U+2029 are escaped.
\<close>

definition hex :: string where
  "hex = ''0123456789abcdef''"

fun quote_bytes :: "string \<Rightarrow> string" where
  "quote_bytes [] = []"
| "quote_bytes (c # cs) =
     (let n = (of_char c :: nat)
      in if c = CHR 0x22 \<or> c = CHR 0x5C then CHR 0x5C # c # quote_bytes cs
         else if c = CHR 0x0A then CHR 0x5C # CHR ''n'' # quote_bytes cs
         else if c = CHR 0x0D then CHR 0x5C # CHR ''r'' # quote_bytes cs
         else if c = CHR 0x09 then CHR 0x5C # CHR ''t'' # quote_bytes cs
         else if n < 0x20 \<or> c = CHR ''<'' \<or> c = CHR ''>'' \<or> c = CHR ''&''
         then CHR 0x5C # ''u00'' @ [hex ! (n div 16), hex ! (n mod 16)] @ quote_bytes cs
         else if c = CHR 0xE2 \<and> take 2 cs = [CHR 0x80, CHR 0xA8] then CHR 0x5C # ''u2028'' @ quote_bytes (drop 2 cs)
         else if c = CHR 0xE2 \<and> take 2 cs = [CHR 0x80, CHR 0xA9] then CHR 0x5C # ''u2029'' @ quote_bytes (drop 2 cs)
         else c # quote_bytes cs)"

definition quote :: "string \<Rightarrow> string" where
  "quote s = CHR 0x22 # quote_bytes s @ [CHR 0x22]"

text \<open>
  \<open>compact\<close> writes a parsed document without insignificant white space, as the library
  does with a \<open>RawMessage\<close> when marshalling it; with \<open>esc\<close> it escapes the HTML
  characters inside string literals.
\<close>

fun escape_raw :: "string \<Rightarrow> string" where
  "escape_raw [] = []"
| "escape_raw (c # cs) =
     (if c = CHR ''<'' \<or> c = CHR ''>'' \<or> c = CHR ''&''
      then CHR 0x5C # ''u00'' @ [hex ! ((of_char c :: nat) div 16), hex ! ((of_char c :: nat) mod 16)] @ escape_raw cs
      else if c = CHR 0xE2 \<and> take 2 cs = [CHR 0x80, CHR 0xA8] then CHR 0x5C # ''u2028'' @ escape_raw (drop 2 cs)
      else if c = CHR 0xE2 \<and> take 2 cs = [CHR 0x80, CHR 0xA9] then CHR 0x5C # ''u2029'' @ escape_raw (drop 2 cs)
      else c # escape_raw cs)"

fun compact :: "bool \<Rightarrow> json \<Rightarrow> string"
  and compact_elements :: "bool \<Rightarrow> json list \<Rightarrow> string"
  and compact_members :: "bool \<Rightarrow> (string \<times> json) list \<Rightarrow> string"
where
  "compact esc JNull = ''null''"
| "compact esc (JBool b) = (if b then ''true'' else ''false'')"
| "compact esc (JNumber l) = l"
| "compact esc (JString b) = CHR 0x22 # (if esc then escape_raw b else b) @ [CHR 0x22]"
| "compact esc (JArray vs) = CHR ''['' # compact_elements esc vs @ '']''"
| "compact esc (JObject ms) = CHR ''{'' # compact_members esc ms @ ''}''"
| "compact_elements esc [] = []"
| "compact_elements esc [v] = compact esc v"
| "compact_elements esc (v # w # vs) = compact esc v @ '','' @ compact_elements esc (w # vs)"
| "compact_members esc [] = []"
| "compact_members esc [(k, v)] =
     CHR 0x22 # (if esc then escape_raw k else k) @ [CHR 0x22] @ '':'' @ compact esc v"
| "compact_members esc ((k, v) # m # ms) =
     CHR 0x22 # (if esc then escape_raw k else k) @ [CHR 0x22] @ '':'' @ compact esc v @ '',''
       @ compact_members esc (m # ms)"

section \<open>Requests and records (the handlers' types)\<close>

text \<open>
  \<open>type manifest struct\<close> and \<open>type startRequest struct\<close>, field by field. A slice
  or map is \<open>None\<close> when \<open>nil\<close>; a map is kept as a list of entries sorted by key;
  a \<open>json.RawMessage\<close> is the bytes of a JSON value, \<open>None\<close> when \<open>nil\<close>.
  \<open>startResponse\<close> is the anonymous struct \<open>{Key, URL}\<close> that \<open>StartHandler\<close> returns.
\<close>

type_synonym RawMessage = "string option"

record manifest =
  Name :: string
  URL :: string
  HookAttributes :: RawMessage
  RedirectURL :: string
  CallbackURLs :: "string list option"
  Description :: string
  Public :: bool
  DefaultEvents :: "string list option"
  DefaultPermissions :: "(string \<times> string) list option"

record startRequest =
  Manifest :: manifest
  TargetType :: string
  TargetSlug :: string
  Host :: string
  Token :: string

record startResponse =
  resp_Key :: string
  resp_URL :: string

definition zero_manifest :: manifest where
  "zero_manifest =
     \<lparr>Name = [], URL = [], HookAttributes = None, RedirectURL = [], CallbackURLs = None,
      Description = [], Public = False, DefaultEvents = None, DefaultPermissions = None\<rparr>"

definition zero_startRequest :: startRequest where
  "zero_startRequest =
     \<lparr>Manifest = zero_manifest, TargetType = [], TargetSlug = [], Host = [], Token = []\<rparr>"

section \<open>The reference model: decoding and marshalling the structs\<close>

definition fold_name :: "string \<Rightarrow> string" where
  "fold_name = map (\<lambda>c. if (65::nat) \<le> of_char c \<and> (of_char c :: nat) \<le> 90 then char_of ((of_char c :: nat) + 32) else c)"

definition type_error :: error where
  "type_error = Failure ''json: cannot unmarshal value into Go struct field''"

definition syntax_error :: error where
  "syntax_error = Failure ''json: invalid character or unexpected end of JSON input''"

fun decode_string :: "json \<Rightarrow> string \<Rightarrow> error + string" where
  "decode_string (JString b) cur = Inr (unquote b)"
| "decode_string JNull cur = Inr cur"
| "decode_string v cur = Inl type_error"

fun decode_bool :: "json \<Rightarrow> bool \<Rightarrow> error + bool" where
  "decode_bool (JBool b) cur = Inr b"
| "decode_bool JNull cur = Inr cur"
| "decode_bool v cur = Inl type_error"

fun decode_elements :: "json list \<Rightarrow> error + string list" where
  "decode_elements [] = Inr []"
| "decode_elements (v # vs) =
     (case decode_string v [] of
        Inl e \<Rightarrow> Inl e
      | Inr x \<Rightarrow> (case decode_elements vs of Inl e \<Rightarrow> Inl e | Inr xs \<Rightarrow> Inr (x # xs)))"

fun decode_strings :: "json \<Rightarrow> error + string list option" where
  "decode_strings (JArray vs) = (case decode_elements vs of Inl e \<Rightarrow> Inl e | Inr xs \<Rightarrow> Inr (Some xs))"
| "decode_strings JNull = Inr None"
| "decode_strings v = Inl type_error"

fun map_assign :: "string \<Rightarrow> string \<Rightarrow> (string \<times> string) list \<Rightarrow> (string \<times> string) list" where
  "map_assign k v [] = [(k, v)]"
| "map_assign k v ((k', v') # m) =
     (if k' = k then (k, v) # m
      else if k < k' then (k, v) # (k', v') # m
      else (k', v') # map_assign k v m)"

fun decode_entries :: "(string \<times> json) list \<Rightarrow> (string \<times> string) list \<Rightarrow> error + (string \<times> string) list" where
  "decode_entries [] m = Inr m"
| "decode_entries ((k, v) # ms) m =
     (case decode_string v [] of
        Inl e \<Rightarrow> Inl e
      | Inr x \<Rightarrow> decode_entries ms (map_assign (unquote k) x m))"

fun decode_map :: "json \<Rightarrow> (string \<times> string) list option \<Rightarrow> error + (string \<times> string) list option" where
  "decode_map (JObject ms) cur =
     (case decode_entries ms (case cur of None \<Rightarrow> [] | Some m \<Rightarrow> m) of
        Inl e \<Rightarrow> Inl e
      | Inr m \<Rightarrow> Inr (Some m))"
| "decode_map JNull cur = Inr None"
| "decode_map v cur = Inl type_error"

definition manifest_field :: "string \<Rightarrow> json \<Rightarrow> manifest \<Rightarrow> error + manifest" where
  "manifest_field k v m =
     (if k = ''name'' then map_sum id (\<lambda>x. m\<lparr>Name := x\<rparr>) (decode_string v (Name m))
      else if k = ''url'' then map_sum id (\<lambda>x. m\<lparr>URL := x\<rparr>) (decode_string v (URL m))
      else if k = ''hook_attributes'' then Inr (m\<lparr>HookAttributes := Some (compact False v)\<rparr>)
      else if k = ''redirect_url'' then map_sum id (\<lambda>x. m\<lparr>RedirectURL := x\<rparr>) (decode_string v (RedirectURL m))
      else if k = ''callback_urls'' then map_sum id (\<lambda>x. m\<lparr>CallbackURLs := x\<rparr>) (decode_strings v)
      else if k = ''description'' then map_sum id (\<lambda>x. m\<lparr>Description := x\<rparr>) (decode_string v (Description m))
      else if k = ''public'' then map_sum id (\<lambda>x. m\<lparr>Public := x\<rparr>) (decode_bool v (Public m))
      else if k = ''default_events'' then map_sum id (\<lambda>x. m\<lparr>DefaultEvents := x\<rparr>) (decode_strings v)
      else if k = ''default_permissions''
      then map_sum id (\<lambda>x. m\<lparr>DefaultPermissions := x\<rparr>) (decode_map v (DefaultPermissions m))
      else Inr m)"

fun manifest_members :: "(string \<times> json) list \<Rightarrow> manifest \<Rightarrow> error + manifest" where
  "manifest_members [] m = Inr m"
| "manifest_members ((k, v) # ms) m =
     (case manifest_field (fold_name (unquote k)) v m of
        Inl e \<Rightarrow> Inl e
      | Inr m' \<Rightarrow> manifest_members ms m')"

fun decode_manifest :: "json \<Rightarrow> manifest \<Rightarrow> error + manifest" where
  "decode_manifest (JObject ms) cur = manifest_members ms cur"
| "decode_manifest JNull cur = Inr cur"
| "decode_manifest v cur = Inl type_error"

definition startRequest_field :: "string \<Rightarrow> json \<Rightarrow> startRequest \<Rightarrow> error + startRequest" where
  "startRequest_field k v r =
     (if k = ''manifest'' then map_sum id (\<lambda>x. r\<lparr>Manifest := x\<rparr>) (decode_manifest v (Manifest r))
      else if k = ''target_type'' then map_sum id (\<lambda>x. r\<lparr>TargetType := x\<rparr>) (decode_string v (TargetType r))
      else if k = ''target_slug'' then map_sum id (\<lambda>x. r\<lparr>TargetSlug := x\<rparr>) (decode_string v (TargetSlug r))
      else if k = ''host'' then map_sum id (\<lambda>x. r\<lparr>Host := x\<rparr>) (decode_string v (Host r))
      else if k = ''token'' then map_sum id (\<lambda>x. r\<lparr>Token := x\<rparr>) (decode_string v (Token r))
      else Inr r)"

fun startRequest_members :: "(string \<times> json) list \<Rightarrow> startRequest \<Rightarrow> error + startRequest" where
  "startRequest_members [] r = Inr r"
| "startRequest_members ((k, v) # ms) r =
     (case startRequest_field (fold_name (unquote k)) v r of
        Inl e \<Rightarrow> Inl e
      | Inr r' \<Rightarrow> startRequest_members ms r')"

fun decode_startRequest :: "json \<Rightarrow> startRequest \<Rightarrow> error + startRequest" where
  "decode_startRequest (JObject ms) cur = startRequest_members ms cur"
| "decode_startRequest JNull cur = Inr cur"
| "decode_startRequest v cur = Inl type_error"

fun is_container :: "json \<Rightarrow> bool" where
  "is_container (JObject ms) = True"
| "is_container (JArray vs) = True"
| "is_container v = False"

text \<open>
  \<open>json.NewDecoder(r).Decode(&v)\<close> for a zero \<open>startRequest\<close>: one value is read from
  the input; after a value that is not an object or an array the next byte must be white
  space or the end of the input.
\<close>

definition json_Decode :: "string \<Rightarrow> error + startRequest" where
  "json_Decode body =
     (case json_value body of
        None \<Rightarrow> Inl syntax_error
      | Some (v, rest) \<Rightarrow>
          if \<not> is_container v \<and> rest \<noteq> [] \<and> \<not> is_space (hd rest) then Inl syntax_error
          else decode_startRequest v zero_startRequest)"

fun join :: "string \<Rightarrow> string list \<Rightarrow> string" where
  "join sep [] = []"
| "join sep [x] = x"
| "join sep (x # y # xs) = x @ sep @ join sep (y # xs)"

definition marshal_strings :: "string list option \<Rightarrow> string" where
  "marshal_strings xs = (case xs of None \<Rightarrow> ''null'' | Some ys \<Rightarrow> ''['' @ join '','' (map quote ys) @ '']'')"

definition marshal_map :: "(string \<times> string) list option \<Rightarrow> string" where
  "marshal_map m =
     (case m of
        None \<Rightarrow> ''null''
      | Some kvs \<Rightarrow> ''{'' @ join '','' (map (\<lambda>(k, v). quote k @ '':'' @ quote v) (sort_key fst kvs)) @ ''}'')"

definition marshal_raw :: "RawMessage \<Rightarrow> error + string" where
  "marshal_raw m =
     (case m of
        None \<Rightarrow> Inr ''null''
      | Some raw \<Rightarrow>
          (case json_value raw of
             None \<Rightarrow> Inl syntax_error
           | Some (v, rest) \<Rightarrow> if skip_space rest = [] then Inr (compact True v) else Inl syntax_error))"

definition json_Marshal_manifest :: "manifest \<Rightarrow> error + string" where
  \<open>json_Marshal_manifest m =
     (case marshal_raw (HookAttributes m) of
        Inl e \<Rightarrow> Inl e
      | Inr hook \<Rightarrow>
          Inr (''{"name":'' @ quote (Name m)
               @ '',"url":'' @ quote (URL m)
               @ '',"hook_attributes":'' @ hook
               @ '',"redirect_url":'' @ quote (RedirectURL m)
               @ '',"callback_urls":'' @ marshal_strings (CallbackURLs m)
               @ '',"description":'' @ quote (Description m)
               @ '',"public":'' @ (if Public m then ''true'' else ''false'')
               @ '',"default_events":'' @ marshal_strings (DefaultEvents m)
               @ '',"default_permissions":'' @ marshal_map (DefaultPermissions m)
               @ ''}''))\<close>

definition json_Marshal_startRequest :: "startRequest \<Rightarrow> error + string" where
  \<open>json_Marshal_startRequest r =
     (case json_Marshal_manifest (Manifest r) of
        Inl e \<Rightarrow> Inl e
      | Inr m \<Rightarrow>
          Inr (''{"manifest":'' @ m
               @ '',"target_type":'' @ quote (TargetType r)
               @ '',"target_slug":'' @ quote (TargetSlug r)
               @ '',"host":'' @ quote (Host r)
               @ '',"token":'' @ quote (Token r)
               @ ''}''))\<close>

definition json_Marshal_startResponse :: "startResponse \<Rightarrow> error + string" where
  \<open>json_Marshal_startResponse r =
     Inr (''{"key":'' @ quote (resp_Key r) @ '',"url":'' @ quote (resp_URL r) @ ''}'')\<close>

section \<open>The handlers\<close>

text \<open>
  The JSON library as the handlers use it: decoding a \<open>startRequest\<close> from a text, and
  marshalling a \<open>startRequest\<close>, a \<open>manifest\<close> and the response of \<open>StartHandler\<close>.
\<close>

record encoding_json =
  Decode :: "string \<Rightarrow> error + startRequest"
  Marshal_startRequest :: "startRequest \<Rightarrow> error + string"
  Marshal_manifest :: "manifest \<Rightarrow> error + string"
  Marshal_startResponse :: "startResponse \<Rightarrow> error + string"

definition go_json :: encoding_json where
  "go_json =
     \<lparr>Decode = json_Decode, Marshal_startRequest = json_Marshal_startRequest,
      Marshal_manifest = json_Marshal_manifest, Marshal_startResponse = json_Marshal_startResponse\<rparr>"

text \<open>
  \<open>crypto/rand.Read(b)\<close> fills \<open>b\<close> entirely or returns an error. The source is the list
  of what its successive reads deliver: an error, or bytes (too few bytes are an error; an
  exhausted source fails).
\<close>

type_synonym byte = "8 word"

type_synonym Reader = "(error + byte list) list"

definition ErrUnexpectedEOF :: error where
  "ErrUnexpectedEOF = Failure ''unexpected EOF''"

fun rand_Read :: "nat \<Rightarrow> Reader \<Rightarrow> (error + byte list) \<times> Reader" where
  "rand_Read n [] = (Inl ErrUnexpectedEOF, [])"
| "rand_Read n (Inl err # src) = (Inl err, src)"
| "rand_Read n (Inr bs # src) = (if length bs < n then Inl ErrUnexpectedEOF else Inr (take n bs), src)"

text \<open>
  \<open>hex.EncodeToString\<close>: two characters of \<open>hextable\<close> for each byte, the high
  nibble first.
\<close>

definition hextable :: string where
  "hextable = ''0123456789abcdef''"

fun hex_EncodeToString :: "byte list \<Rightarrow> string" where
  "hex_EncodeToString [] = []"
| "hex_EncodeToString (v # src) =
     hextable ! unat (drop_bit 4 v) # hextable ! unat (v AND 0x0f) # hex_EncodeToString src"

text \<open>
\<open>err.Error()\<close>, and \<open>token()\<close>: 32 bytes from the source, in hexadecimal.
\<close>

fun Error :: "error \<Rightarrow> string" where
  "Error redis_Nil = ''redis: nil''"
| "Error (Failure msg) = msg"

definition token :: "Reader \<Rightarrow> (string \<times> error option) \<times> Reader" where
  "token src =
     (case rand_Read 32 src of
        (Inl err, src') \<Rightarrow> (([], Some (Failure (''error generating token: '' @ Error err))), src')
      | (Inr bytes, src') \<Rightarrow> ((hex_EncodeToString bytes, None), src'))"

text \<open>
  What a handler writes: a status with a body, the \<open>redirectpage\<close> template executed on
  its data (status 200), or \<open>http.Redirect\<close> to a URL with a status. Headers are left
  out.
\<close>

record redirectTemplate =
  tmpl_Manifest :: string
  tmpl_Action :: string

datatype response =
    Respond nat string
  | Execute redirectTemplate
  | Redirect string nat

fun status :: "response \<Rightarrow> nat" where
  "status (Respond code b) = code"
| "status (Execute data) = 200"
| "status (Redirect url code) = code"

definition StatusOK :: nat where "StatusOK = 200"
definition StatusFound :: nat where "StatusFound = 302"
definition StatusBadRequest :: nat where "StatusBadRequest = 400"
definition StatusNotFound :: nat where "StatusNotFound = 404"
definition StatusInternalServerError :: nat where "StatusInternalServerError = 500"

text \<open>
  \<open>StartHandler(baseURL, store)\<close> on a request with the given body; \<open>rnd\<close> is the
  random source and \<open>s\<close> the state of the store.
\<close>

definition StartHandler ::
  "encoding_json \<Rightarrow> string \<Rightarrow> 's Store \<Rightarrow> string \<Rightarrow> Reader \<Rightarrow> 's \<Rightarrow> response \<times> Reader \<times> 's" where
  \<open>StartHandler js baseURL store body rnd s =
     (case Decode js body of
        Inl err \<Rightarrow> (Respond StatusBadRequest ''{"error": "failed to parse request"}'', rnd, s)
      | Inr request \<Rightarrow>
          (case token rnd of
             ((x, Some err), rnd1) \<Rightarrow>
               (Respond StatusInternalServerError ''{"error": "failed to generate a random token"}'', rnd1, s)
           | ((initialToken, None), rnd1) \<Rightarrow>
               (case token rnd1 of
                  ((x, Some err), rnd2) \<Rightarrow>
                    (Respond StatusInternalServerError ''{"error": "failed to generate a random token"}'', rnd2, s)
                | ((stateToken, None), rnd2) \<Rightarrow>
                    (case Marshal_startRequest js
                            (request\<lparr>Token := stateToken,
                                     Manifest := (Manifest request)\<lparr>RedirectURL := baseURL @ ''/callback''\<rparr>\<rparr>) of
                       Inl err \<Rightarrow>
                         (Respond StatusInternalServerError ''{"error": "failed to marshal payload for storage"}'', rnd2, s)
                     | Inr payload \<Rightarrow>
                         (case SetEx store (''i:'' @ initialToken) payload (10 * Minute) s of
                            (Some err, s') \<Rightarrow>
                              (Respond StatusInternalServerError ''{"error": "failed to store payload"}'', rnd2, s')
                          | (None, s') \<Rightarrow>
                              (case Marshal_startResponse js
                                      \<lparr>resp_Key = stateToken,
                                       resp_URL = baseURL @ ''/redirect/'' @ initialToken\<rparr> of
                                 Inl err \<Rightarrow>
                                   (Respond StatusInternalServerError ''{"error": "failed to generate response"}'', rnd2, s')
                               | Inr jsonResponse \<Rightarrow> (Respond StatusOK jsonResponse, rnd2, s')))))))\<close>

definition actionURL :: "startRequest \<Rightarrow> string" where
  "actionURL data =
     (if TargetType data = ''org''
      then ''https://'' @ Host data @ ''/organizations/'' @ TargetSlug data @ ''/settings/apps/new?state='' @ Token data
      else ''https://'' @ Host data @ ''/settings/apps/new?state='' @ Token data)"

text \<open>
\<open>RedirectHandler(store)\<close>; \<open>key\<close> is the path variable \<open>initialKey\<close>.
\<close>

definition RedirectHandler :: "encoding_json \<Rightarrow> 's Store \<Rightarrow> string \<Rightarrow> 's \<Rightarrow> response \<times> 's" where
  "RedirectHandler js store key s =
     (case GetDel store (''i:'' @ key) s of
        ((raw, Some err), s') \<Rightarrow>
          if err = redis_Nil
          then (Respond StatusNotFound ''Error: failed to find metadata for the given key'', s')
          else (Respond StatusInternalServerError ''Error: failed to fetch metadata'', s')
      | ((raw, None), s') \<Rightarrow>
          (case Decode js raw of
             Inl err \<Rightarrow> (Respond StatusInternalServerError ''Error: failed to parse metadata.'', s')
           | Inr m \<Rightarrow>
               (case Marshal_manifest js (Manifest m) of
                  Inl err \<Rightarrow> (Respond StatusInternalServerError ''Error: failed to generate manifest json'', s')
                | Inr manifestJSON \<Rightarrow>
                    (Execute \<lparr>tmpl_Manifest = manifestJSON, tmpl_Action = actionURL m\<rparr>, s'))))"

text \<open>
  \<open>r.FormValue(key)\<close>: the first value for the key in the parsed query and form, or the
  empty string when there is none.
\<close>

type_synonym Form = "string \<rightharpoonup> string list"

definition FormValue :: "Form \<Rightarrow> string \<Rightarrow> string" where
  "FormValue form key = (case form key of Some (v # vs) \<Rightarrow> v | _ \<Rightarrow> [])"

definition CallbackHandler :: "'s Store \<Rightarrow> Form \<Rightarrow> 's \<Rightarrow> response \<times> 's" where
  "CallbackHandler store form s =
     (let state = FormValue form ''state''; code = FormValue form ''code''
      in if state = [] \<or> code = []
         then (Respond StatusBadRequest ''Error: missing state or code parameters.'', s)
         else
           (case SetEx store (''s:'' @ state) code (5 * Minute) s of
              (Some err, s') \<Rightarrow> (Respond StatusBadRequest ''Error: failed to store code.'', s')
            | (None, s') \<Rightarrow> (Redirect ''/done'' StatusFound, s')))"

text \<open>
\<open>CodeHandler(store)\<close>; \<open>key\<close> is the path variable \<open>key\<close>.
\<close>

definition CodeHandler :: "'s Store \<Rightarrow> string \<Rightarrow> 's \<Rightarrow> response \<times> 's" where
  \<open>CodeHandler store key s =
     (case GetDel store (''s:'' @ key) s of
        ((code, Some err), s') \<Rightarrow>
          if err = redis_Nil
          then (Respond StatusNotFound ''{"error": "failed to find code for the given key"}'', s')
          else (Respond StatusInternalServerError ''"error": "failed to fetch code"}'', s')
      | ((code, None), s') \<Rightarrow> (Respond StatusOK (''{"code": "'' @ code @ ''"}''), s'))\<close>

text \<open>
  A store that also records, in order, the operations performed on it, and a store whose
  every operation fails with a transport error.
\<close>

datatype store_op = Op_GetDel string | Op_SetEx string string Duration

definition recording :: "'s Store \<Rightarrow> ('s \<times> store_op list) Store" where
  "recording store =
     \<lparr>GetDel = (\<lambda>key (s, ops). case GetDel store key s of (r, s') \<Rightarrow> (r, (s', ops @ [Op_GetDel key]))),
      SetEx = (\<lambda>key v e (s, ops). case SetEx store key v e s of (r, s') \<Rightarrow> (r, (s', ops @ [Op_SetEx key v e])))\<rparr>"

definition failing_Store :: "string \<Rightarrow> unit Store" where
  "failing_Store msg =
     \<lparr>GetDel = (\<lambda>key s. (([], Some (Failure msg)), s)),
      SetEx = (\<lambda>key v e s. (Some (Failure msg), s))\<rparr>"

text \<open>
  A byte that a JSON string literal may contain as it is: no quote, no backslash, no
  control character.
\<close>

definition plain :: "char \<Rightarrow> bool" where
  "plain c \<longleftrightarrow> c \<noteq> CHR 0x22 \<and> c \<noteq> CHR 0x5C \<and> (0x20::nat) \<le> of_char c"

section \<open>Example data\<close>

text \<open>
  A manifest as decoded from a record stored for base URL \<open>http://localhost:1123\<close>, its
  serialisation, and two initiation records holding it: one for an organisation, one with
  a target type outside \<open>user\<close> and \<open>org\<close>.
\<close>

definition demo_manifest :: manifest where
  "demo_manifest =
     \<lparr>Name = ''demo'', URL = [], HookAttributes = Some ''null'',
      RedirectURL = ''http://localhost:1123/callback'', CallbackURLs = None,
      Description = [], Public = False, DefaultEvents = None, DefaultPermissions = None\<rparr>"

definition demo_manifest_json :: string where
  \<open>demo_manifest_json =
     ''{"name":"demo","url":"","hook_attributes":null,"redirect_url":"http://localhost:1123/callback","callback_urls":null,"description":"","public":false,"default_events":null,"default_permissions":null}''\<close>

definition record_org :: string where
  \<open>record_org =
     ''{"manifest":'' @ demo_manifest_json
       @ '',"target_type":"org","target_slug":"acme","host":"github.example","token":"f00d"}''\<close>

definition record_team :: string where
  \<open>record_team =
     ''{"manifest":'' @ demo_manifest_json
       @ '',"target_type":"team","target_slug":"acme","host":"github.example","token":"f00d"}''\<close>

text \<open>
  A Start request in the shape of the specification's scenario A, whose manifest also gives a
  \<open>redirect_url\<close> of its own and a key outside the \<open>manifest\<close> struct; a random source
  that delivers the bytes of two tokens; and the record \<open>StartHandler\<close> stores for them.
\<close>

definition supplied_manifest :: string where
  \<open>supplied_manifest =
     ''{"name":"demo","redirect_url":"https://caller.example/cb","setup_url":"https://caller.example/setup"}''\<close>

definition start_body :: string where
  \<open>start_body =
     ''{"manifest":'' @ supplied_manifest
       @ '',"target_type":"user","target_slug":"alice","host":"github.example"}''\<close>

definition two_tokens :: Reader where
  "two_tokens = [Inr (replicate 32 0xab), Inr (replicate 32 0xcd)]"

definition token_ab :: string where
  "token_ab = ''abababababababababababababababababababababababababababababababab''"

definition token_cd :: string where
  "token_cd = ''cdcdcdcdcdcdcdcdcdcdcdcdcdcdcdcdcdcdcdcdcdcdcdcdcdcdcdcdcdcdcdcd''"

definition record_user :: string where
  \<open>record_user =
     ''{"manifest":'' @ demo_manifest_json
       @ '',"target_type":"user","target_slug":"alice","host":"github.example","token":"'' @ token_cd @ ''"}''\<close>

section \<open>Properties of the store\<close>

lemma GetDel_removes: "d (snd (memStore_GetDel now key ms)) key = None"
  by (simp add: memStore_GetDel_def split: option.splits)

lemma GetDel_absent: "d ms key = None \<Longrightarrow> memStore_GetDel now key ms = (NotFound, ms)"
  by (simp add: memStore_GetDel_def NotFound_def)

lemma GetDel_other: "k \<noteq> key \<Longrightarrow> d (snd (memStore_GetDel now k ms)) key = d ms key"
  by (simp add: memStore_GetDel_def split: option.splits)

lemma apply_call_absent:
  "d ms key = None \<Longrightarrow> \<not> writes key c \<Longrightarrow> d (apply_call c ms) key = None"
proof (cases c)
  case (Call_GetDel now k)
  assume "d ms key = None"
  then show ?thesis
    using Call_GetDel GetDel_removes [of now k ms] GetDel_other [of k key now ms]
    by (cases "k = key") simp_all
next
  case (Call_SetEx now k v e)
  assume "d ms key = None" "\<not> writes key c"
  then show ?thesis using Call_SetEx by (simp add: memStore_SetEx_def)
qed

lemma run_calls_absent:
  "d ms key = None \<Longrightarrow> list_all (\<lambda>c. \<not> writes key c) cs \<Longrightarrow> d (run_calls cs ms) key = None"
  by (induction cs arbitrary: ms) (simp_all add: apply_call_absent)

lemma GetDel_all_absent:
  "d ms key = None \<Longrightarrow> fst (GetDel_all ts key ms) = replicate (length ts) NotFound"
proof (induction ts arbitrary: ms)
  case Nil
  then show ?case by simp
next
  case (Cons t ts)
  have step: "memStore_GetDel t key ms = (NotFound, ms)"
    using Cons.prems by (rule GetDel_absent)
  show ?case
    using Cons.IH [OF Cons.prems] by (auto simp: step split: prod.splits)
qed

text \<open>
  C2. \<open>GetDel\<close> on a key with no record returns NotFound (\<open>redis.Nil\<close> with the empty
  string) and leaves the store as it is; a \<open>GetDel\<close> that returned a value has removed the
  record, and after any further calls that do not include a \<open>SetEx\<close> on that key, a
  \<open>GetDel\<close> on it at any time returns NotFound again. \<open>memStore.GetDel\<close> returns no
  error other than \<open>redis.Nil\<close>.
\<close>

theorem GetDel_absent_or_consumed:
  "(d ms key = None \<longrightarrow> memStore_GetDel now key ms = (('''', Some redis_Nil), ms))
   \<and> (memStore_GetDel now key ms = ((v, None), ms') \<longrightarrow>
        d ms' key = None
        \<and> (\<forall>cs now'. list_all (\<lambda>c. \<not> writes key c) cs \<longrightarrow>
              memStore_GetDel now' key (run_calls cs ms') = (('''', Some redis_Nil), run_calls cs ms')))
   \<and> snd (fst (memStore_GetDel now key ms)) \<in> {None, Some redis_Nil}"
proof (intro conjI impI allI)
  assume "d ms key = None"
  then show "memStore_GetDel now key ms = (('''', Some redis_Nil), ms)"
    using GetDel_absent [of ms key now] by (simp add: NotFound_def)
next
  assume got: "memStore_GetDel now key ms = ((v, None), ms')"
  have gone: "d ms' key = None"
    using GetDel_removes [of now key ms] got by simp
  then show "d ms' key = None" .
  fix cs now'
  assume "list_all (\<lambda>c. \<not> writes key c) cs"
  then have "d (run_calls cs ms') key = None"
    using gone by (simp add: run_calls_absent)
  then show "memStore_GetDel now' key (run_calls cs ms') = (('''', Some redis_Nil), run_calls cs ms')"
    using GetDel_absent [of "run_calls cs ms'" key now'] by (simp add: NotFound_def)
next
  show "snd (fst (memStore_GetDel now key ms)) \<in> {None, Some redis_Nil}"
    by (simp add: memStore_GetDel_def split: option.splits)
qed

theorem GetDel_absent_or_consumed_witness:
  "d NewMemStore ''k'' = None
   \<and> memStore_GetDel 3 ''k'' NewMemStore = (('''', Some redis_Nil), NewMemStore)
   \<and> memStore_GetDel 3 ''k'' (snd (memStore_SetEx 0 ''k'' ''v'' 10 NewMemStore))
       = ((''v'', None), snd (memStore_GetDel 3 ''k'' (snd (memStore_SetEx 0 ''k'' ''v'' 10 NewMemStore))))
   \<and> list_all (\<lambda>c. \<not> writes ''k'' c) [Call_GetDel 4 ''k'', Call_SetEx 5 ''j'' ''x'' 10]
   \<and> memStore_GetDel 9 ''k''
         (run_calls [Call_GetDel 4 ''k'', Call_SetEx 5 ''j'' ''x'' 10]
            (snd (memStore_GetDel 3 ''k'' (snd (memStore_SetEx 0 ''k'' ''v'' 10 NewMemStore)))))
       = (('''', Some redis_Nil),
          run_calls [Call_GetDel 4 ''k'', Call_SetEx 5 ''j'' ''x'' 10]
            (snd (memStore_GetDel 3 ''k'' (snd (memStore_SetEx 0 ''k'' ''v'' 10 NewMemStore)))))"
proof -
  let ?ms1 = "snd (memStore_SetEx 0 ''k'' ''v'' 10 NewMemStore)"
  let ?cs = "[Call_GetDel 4 ''k'', Call_SetEx 5 ''j'' ''x'' 10]"
  have absent: "d NewMemStore ''k'' = None"
    by (simp add: NewMemStore_def)
  have got: "memStore_GetDel 3 ''k'' ?ms1 = ((''v'', None), snd (memStore_GetDel 3 ''k'' ?ms1))"
    by (simp add: memStore_GetDel_def memStore_SetEx_def NewMemStore_def)
  have quiet: "list_all (\<lambda>c. \<not> writes ''k'' c) ?cs"
    by simp
  show ?thesis
    using GetDel_absent_or_consumed [of NewMemStore "''k''" 3 "''v''" "snd (memStore_GetDel 3 ''k'' ?ms1)"]
          GetDel_absent_or_consumed [of ?ms1 "''k''" 3 "''v''" "snd (memStore_GetDel 3 ''k'' ?ms1)"]
          absent got quiet
    by blast
qed

lemma apply_call_untouched: "\<not> touches key c \<Longrightarrow> d (apply_call c ms) key = d ms key"
  by (cases c) (simp_all add: memStore_GetDel_def memStore_SetEx_def split: option.splits)

lemma run_calls_untouched:
  "list_all (\<lambda>c. \<not> touches key c) cs \<Longrightarrow> d (run_calls cs ms) key = d ms key"
  by (induction cs arbitrary: ms) (simp_all add: apply_call_untouched)

lemma SetEx_installs: "d (snd (memStore_SetEx t0 key v ttl ms)) key = Some \<lparr>exp = t0 + ttl, val = v\<rparr>"
  by (simp add: memStore_SetEx_def)

lemma GetDel_present:
  "d ms key = Some \<lparr>exp = e, val = v\<rparr> \<Longrightarrow>
     fst (memStore_GetDel now key ms) = (if now > e then ('''', Some redis_Nil) else (v, None))"
  by (simp add: memStore_GetDel_def)

text \<open>
  C3 (as amended). A record written by \<open>SetEx\<close> at instant \<open>t0\<close> with TTL \<open>ttl\<close>, and
  neither consumed nor overwritten since (the calls in between are on other keys): a
  \<open>GetDel\<close> at an instant up to and including \<open>t0 + ttl\<close> returns the value, a
  \<open>GetDel\<close> at a later instant returns NotFound, and in both cases the record is gone
  after the call.
\<close>

theorem SetEx_GetDel_expiry:
  "list_all (\<lambda>c. \<not> touches key c) cs \<Longrightarrow>
     fst (memStore_GetDel now key (run_calls cs (snd (memStore_SetEx t0 key v ttl ms))))
       = (if now \<le> t0 + ttl then (v, None) else ('''', Some redis_Nil))
     \<and> d (snd (memStore_GetDel now key (run_calls cs (snd (memStore_SetEx t0 key v ttl ms))))) key = None"
proof
  assume "list_all (\<lambda>c. \<not> touches key c) cs"
  then have "d (run_calls cs (snd (memStore_SetEx t0 key v ttl ms))) key = Some \<lparr>exp = t0 + ttl, val = v\<rparr>"
    by (simp add: run_calls_untouched SetEx_installs)
  then show "fst (memStore_GetDel now key (run_calls cs (snd (memStore_SetEx t0 key v ttl ms))))
           = (if now \<le> t0 + ttl then (v, None) else ('''', Some redis_Nil))"
    by (simp add: GetDel_present)
  show "d (snd (memStore_GetDel now key (run_calls cs (snd (memStore_SetEx t0 key v ttl ms))))) key = None"
    by (rule GetDel_removes)
qed

theorem SetEx_GetDel_expiry_witness:
  "list_all (\<lambda>c. \<not> touches ''k'' c) [Call_SetEx 1 ''j'' ''x'' 10, Call_GetDel 2 ''j'']
   \<and> fst (memStore_GetDel 5 ''k''
        (run_calls [Call_SetEx 1 ''j'' ''x'' 10, Call_GetDel 2 ''j''] (snd (memStore_SetEx 0 ''k'' ''v'' 5 NewMemStore))))
       = (''v'', None)
   \<and> fst (memStore_GetDel 6 ''k''
        (run_calls [Call_SetEx 1 ''j'' ''x'' 10, Call_GetDel 2 ''j''] (snd (memStore_SetEx 0 ''k'' ''v'' 5 NewMemStore))))
       = ('''', Some redis_Nil)
   \<and> d (snd (memStore_GetDel 6 ''k''
        (run_calls [Call_SetEx 1 ''j'' ''x'' 10, Call_GetDel 2 ''j''] (snd (memStore_SetEx 0 ''k'' ''v'' 5 NewMemStore))))) ''k''
       = None"
proof -
  have quiet: "list_all (\<lambda>c. \<not> touches ''k'' c) [Call_SetEx 1 ''j'' ''x'' 10, Call_GetDel 2 ''j'']"
    by simp
  show ?thesis
    using quiet
          SetEx_GetDel_expiry [OF quiet, of 5 0 "''v''" 5 NewMemStore]
          SetEx_GetDel_expiry [OF quiet, of 6 0 "''v''" 5 NewMemStore]
    by simp
qed

text \<open>
  The claim as stated puts the boundary on the other side: at exactly \<open>ttl\<close> after the
  write the record is still returned, since \<open>After\<close> is strict.
\<close>

theorem GetDel_at_ttl_counterexample:
  "fst (memStore_GetDel 5 ''k'' (snd (memStore_SetEx 0 ''k'' ''v'' 5 NewMemStore))) = (''v'', None)"
  by (simp add: memStore_GetDel_def memStore_SetEx_def NewMemStore_def)

lemma GetDel_all_Cons:
  "fst (GetDel_all (t # ts) key ms)
     = fst (memStore_GetDel t key ms) # fst (GetDel_all ts key (snd (memStore_GetDel t key ms)))"
  by (auto split: prod.splits)

lemma GetDel_all_after_first:
  "fst (GetDel_all (t # ts) key ms) = fst (memStore_GetDel t key ms) # replicate (length ts) NotFound"
  using GetDel_all_absent [of "snd (memStore_GetDel t key ms)" key ts] GetDel_removes [of t key ms]
  by (simp only: GetDel_all_Cons)

text \<open>
  C1 (as amended). \<open>N\<close> callers of \<open>GetDel\<close> on a key, in whatever order they acquire the
  mutex: at most one of them observes a value, whatever the store holds; after a \<open>SetEx\<close>
  of the key, the first caller observes the stored value if it reads the clock no later
  than the expiry and NotFound otherwise, and every other caller observes NotFound.
\<close>

theorem GetDel_single_redemption:
  "length (filter (\<lambda>r. snd r = None) (fst (GetDel_all ts key ms))) \<le> 1
   \<and> fst (GetDel_all (t # ts) key (snd (memStore_SetEx t0 key v ttl ms)))
       = (if t \<le> t0 + ttl then (v, None) else ('''', Some redis_Nil))
         # replicate (length ts) ('''', Some redis_Nil)"
proof
  show "length (filter (\<lambda>r. snd r = None) (fst (GetDel_all ts key ms))) \<le> 1"
  proof (cases ts)
    case Nil
    then show ?thesis by simp
  next
    case (Cons t' ts')
    have "filter (\<lambda>r. snd r = None) (replicate (length ts') NotFound) = []"
      by (simp add: NotFound_def)
    then show ?thesis
      unfolding Cons GetDel_all_after_first by simp
  qed
next
  have "fst (memStore_GetDel t key (snd (memStore_SetEx t0 key v ttl ms)))
          = (if t \<le> t0 + ttl then (v, None) else ('''', Some redis_Nil))"
    using GetDel_present [of "snd (memStore_SetEx t0 key v ttl ms)" key "t0 + ttl" v t]
          SetEx_installs [of t0 key v ttl ms]
    by simp
  then show "fst (GetDel_all (t # ts) key (snd (memStore_SetEx t0 key v ttl ms)))
       = (if t \<le> t0 + ttl then (v, None) else ('''', Some redis_Nil))
         # replicate (length ts) ('''', Some redis_Nil)"
    unfolding GetDel_all_after_first by (simp add: NotFound_def)
qed

text \<open>
  The claim as stated fails once the record has expired: of two callers arriving after
  the expiry, none observes the value.
\<close>

theorem GetDel_none_after_expiry_counterexample:
  "fst (GetDel_all [6, 7] ''k'' (snd (memStore_SetEx 0 ''k'' ''v'' 5 NewMemStore)))
     = [('''', Some redis_Nil), ('''', Some redis_Nil)]"
  by (simp add: memStore_GetDel_def memStore_SetEx_def NewMemStore_def)

lemma hextable_length: "length hextable = 16"
  by (simp add: hextable_def)

lemma hextable_distinct: "distinct hextable"
  by (simp add: hextable_def)

lemma low_mask: "(0x0f :: byte) = mask 4"
  by (simp add: mask_eq_exp_minus_1)

lemma high_nibble: "unat (drop_bit 4 (v :: byte)) < 16"
proof -
  have "unat v < 256" using unsigned_less [of v] by simp
  moreover have "unat (drop_bit 4 v) = unat v div 16"
    by (simp add: unat_div drop_bit_eq_div)
  ultimately show ?thesis by simp
qed

lemma low_nibble: "unat ((v :: byte) AND 0x0f) < 16"
proof -
  have "unat (take_bit 4 v) = unat v mod 16"
    by (simp add: unat_mod take_bit_eq_mod)
  then show ?thesis by (simp add: low_mask flip: take_bit_eq_mask)
qed

lemma nibbles_eq:
  assumes "drop_bit 4 (v :: byte) = drop_bit 4 w" and "v AND 0x0f = w AND 0x0f"
  shows "v = w"
proof -
  have "take_bit 4 v = take_bit 4 w"
    using assms(2) by (simp add: low_mask flip: take_bit_eq_mask)
  then have "push_bit 4 (drop_bit 4 v) + take_bit 4 v = push_bit 4 (drop_bit 4 w) + take_bit 4 w"
    using assms(1) by simp
  then show ?thesis by (simp only: bits_ident)
qed

lemma hextable_nth_inj: "i < 16 \<Longrightarrow> j < 16 \<Longrightarrow> hextable ! i = hextable ! j \<Longrightarrow> i = j"
  using hextable_distinct hextable_length by (simp add: nth_eq_iff_index_eq)

lemma hextable_nth_mem: "i < 16 \<Longrightarrow> hextable ! i \<in> set hextable"
  using hextable_length by simp

lemma hex_EncodeToString_length: "length (hex_EncodeToString bs) = 2 * length bs"
  by (induction bs) simp_all

lemma hex_EncodeToString_chars: "set (hex_EncodeToString bs) \<subseteq> set hextable"
  by (induction bs) (simp_all add: hextable_nth_mem high_nibble low_nibble)

lemma hex_EncodeToString_inj: "hex_EncodeToString a = hex_EncodeToString b \<Longrightarrow> a = b"
proof (induction a arbitrary: b)
  case Nil
  then show ?case by (cases b) simp_all
next
  case (Cons v a)
  then obtain w b' where b: "b = w # b'" by (cases b) auto
  from Cons.prems b have hi: "hextable ! unat (drop_bit 4 v) = hextable ! unat (drop_bit 4 w)"
    and lo: "hextable ! unat (v AND 0x0f) = hextable ! unat (w AND 0x0f)"
    and rest: "hex_EncodeToString a = hex_EncodeToString b'"
    by simp_all
  have "unat (drop_bit 4 v) = unat (drop_bit 4 w)"
    using high_nibble [of v] high_nibble [of w] hi by (rule hextable_nth_inj)
  then have h: "drop_bit 4 v = drop_bit 4 w"
    by (simp only: word_unat_eq_iff)
  have "unat (v AND 0x0f) = unat (w AND 0x0f)"
    using low_nibble [of v] low_nibble [of w] lo by (rule hextable_nth_inj)
  then have l: "v AND 0x0f = w AND 0x0f"
    by (simp only: word_unat_eq_iff)
  have "v = w"
    using h l by (rule nibbles_eq)
  then show ?case using Cons.IH [OF rest] b by simp
qed

lemma rand_Read_length: "fst (rand_Read n src) = Inr bytes \<Longrightarrow> length bytes = n"
  by (induction n src rule: rand_Read.induct) (auto split: if_splits)

text \<open>
  C9. \<open>token()\<close> succeeds exactly when the read of 32 bytes from the random source
  succeeds; the token is then the hexadecimal encoding of these 32 bytes: 64 characters,
  each one of \<open>0123456789abcdef\<close>, and it determines the bytes. When the read fails,
  \<open>token()\<close> returns an error with the empty string. The source is whatever
  \<open>crypto/rand\<close> delivers; the model takes it as given.
\<close>

theorem token_hex_of_random_bytes:
  "(snd (fst (token src)) = None \<longleftrightarrow> (\<exists>bytes. fst (rand_Read 32 src) = Inr bytes))
   \<and> (\<forall>bytes. fst (rand_Read 32 src) = Inr bytes \<longrightarrow>
          length bytes = 32
          \<and> fst (token src) = (hex_EncodeToString bytes, None)
          \<and> length (hex_EncodeToString bytes) = 64
          \<and> set (hex_EncodeToString bytes) \<subseteq> set ''0123456789abcdef''
          \<and> (\<forall>bs. hex_EncodeToString bs = hex_EncodeToString bytes \<longrightarrow> bs = bytes))
   \<and> (snd (fst (token src)) \<noteq> None \<longrightarrow> fst (fst (token src)) = [])
   \<and> snd (token src) = snd (rand_Read 32 src)"
proof (intro conjI allI impI)
  show "snd (fst (token src)) = None \<longleftrightarrow> (\<exists>bytes. fst (rand_Read 32 src) = Inr bytes)"
    by (cases "rand_Read 32 src") (auto simp: token_def split: sum.splits)
next
  fix bytes
  assume r: "fst (rand_Read 32 src) = Inr bytes"
  then show len: "length bytes = 32"
    by (rule rand_Read_length)
  show "fst (token src) = (hex_EncodeToString bytes, None)"
    using r by (cases "rand_Read 32 src") (auto simp: token_def)
  show "length (hex_EncodeToString bytes) = 64"
    using len by (simp add: hex_EncodeToString_length)
  show "set (hex_EncodeToString bytes) \<subseteq> set ''0123456789abcdef''"
    using hex_EncodeToString_chars [of bytes] by (simp only: hextable_def)
  fix bs
  assume "hex_EncodeToString bs = hex_EncodeToString bytes"
  then show "bs = bytes"
    by (rule hex_EncodeToString_inj)
next
  assume "snd (fst (token src)) \<noteq> None"
  then show "fst (fst (token src)) = []"
    by (cases "rand_Read 32 src") (auto simp: token_def split: sum.splits)
next
  show "snd (token src) = snd (rand_Read 32 src)"
    by (cases "rand_Read 32 src") (auto simp: token_def split: sum.splits)
qed

theorem token_hex_of_random_bytes_witness:
  "fst (rand_Read 32 [Inr (replicate 32 (0xab :: byte))]) = Inr (replicate 32 0xab)
   \<and> fst (token [Inr (replicate 32 (0xab :: byte))])
       = (hex_EncodeToString (replicate 32 0xab), None)
   \<and> hex_EncodeToString (replicate 32 (0xab :: byte))
       = ''abababababababababababababababababababababababababababababababab''
   \<and> snd (fst (token [Inl (Failure ''no entropy'')])) \<noteq> None
   \<and> fst (fst (token [Inl (Failure ''no entropy'')])) = []"
proof -
  have ok: "fst (rand_Read 32 [Inr (replicate 32 (0xab :: byte))]) = Inr (replicate 32 0xab)"
    by simp
  have enc: "hex_EncodeToString (replicate 32 (0xab :: byte))
       = ''abababababababababababababababababababababababababababababababab''"
    by code_simp
  have bad: "snd (fst (token [Inl (Failure ''no entropy'')])) \<noteq> None"
    by (simp add: token_def)
  show ?thesis
    using token_hex_of_random_bytes [of "[Inr (replicate 32 (0xab :: byte))]"]
          token_hex_of_random_bytes [of "[Inl (Failure ''no entropy'')]"]
          ok enc bad
    by blast
qed

section \<open>Properties of the handlers\<close>

lemma recording_GetDel:
  "GetDel (recording store) key (s, ops)
     = (fst (GetDel store key s), (snd (GetDel store key s), ops @ [Op_GetDel key]))"
  by (simp add: recording_def split: prod.splits)

lemma recording_SetEx:
  "SetEx (recording store) key v e (s, ops)
     = (fst (SetEx store key v e s), (snd (SetEx store key v e s), ops @ [Op_SetEx key v e]))"
  by (simp add: recording_def split: prod.splits)

lemma StartHandler_parse_error:
  \<open>Decode js body = Inl err \<Longrightarrow>
     StartHandler js baseURL store body rnd s
       = (Respond 400 ''{"error": "failed to parse request"}'', rnd, s)\<close>
  by (simp add: StartHandler_def StatusBadRequest_def)

lemma StartHandler_token_error:
  assumes "Decode js body = Inr request"
    and "snd (fst (token rnd)) \<noteq> None \<or> snd (fst (token (snd (token rnd)))) \<noteq> None"
  shows "status (fst (StartHandler js baseURL store body rnd s)) = 500
         \<and> snd (snd (StartHandler js baseURL store body rnd s)) = s"
proof (cases "token rnd")
  case (Pair r1 rnd1)
  obtain t1 e1 where r1: "r1 = (t1, e1)" by (cases r1)
  show ?thesis
  proof (cases e1)
    case (Some err)
    then show ?thesis
      using assms(1) Pair r1 by (simp add: StartHandler_def StatusInternalServerError_def)
  next
    case None
    obtain r2 rnd2 where t2: "token rnd1 = (r2, rnd2)" by (cases "token rnd1")
    obtain t2' e2 where r2: "r2 = (t2', e2)" by (cases r2)
    have "e2 \<noteq> None" using assms(2) Pair r1 None t2 r2 by simp
    then obtain err where "e2 = Some err" by auto
    then show ?thesis
      using assms(1) Pair r1 None t2 r2 by (simp add: StartHandler_def StatusInternalServerError_def)
  qed
qed

lemma CallbackHandler_missing:
  "FormValue form ''state'' = [] \<or> FormValue form ''code'' = [] \<Longrightarrow>
     CallbackHandler store form s = (Respond 400 ''Error: missing state or code parameters.'', s)"
  by (auto simp: CallbackHandler_def StatusBadRequest_def Let_def)

text \<open>
  C6. A Start request whose body fails to decode, and a Callback request whose \<open>state\<close>
  or \<open>code\<close> is missing or empty, are answered 400 with the store left as it was and,
  on a recording store, with no operation recorded; a Start request whose token generation
  fails (at the first or the second token) is answered 500, again with the store untouched
  and no operation recorded. This holds for every implementation of \<open>Store\<close>.
\<close>

theorem reject_before_any_store_operation:
  \<open>(Decode js body = Inl err \<longrightarrow>
      StartHandler js baseURL store body rnd s
        = (Respond 400 ''{"error": "failed to parse request"}'', rnd, s)
      \<and> snd (snd (snd (StartHandler js baseURL (recording store) body rnd (s, ops)))) = ops)
   \<and> (FormValue form ''state'' = [] \<or> FormValue form ''code'' = [] \<longrightarrow>
      CallbackHandler store form s = (Respond 400 ''Error: missing state or code parameters.'', s)
      \<and> snd (snd (CallbackHandler (recording store) form (s, ops))) = ops)
   \<and> (Decode js body = Inr request
        \<and> (snd (fst (token rnd)) \<noteq> None \<or> snd (fst (token (snd (token rnd)))) \<noteq> None) \<longrightarrow>
      status (fst (StartHandler js baseURL store body rnd s)) = 500
      \<and> snd (snd (StartHandler js baseURL store body rnd s)) = s
      \<and> snd (snd (snd (StartHandler js baseURL (recording store) body rnd (s, ops)))) = ops)\<close>
proof (intro conjI impI)
  assume "Decode js body = Inl err"
  then show \<open>StartHandler js baseURL store body rnd s
        = (Respond 400 ''{"error": "failed to parse request"}'', rnd, s)\<close>
    and "snd (snd (snd (StartHandler js baseURL (recording store) body rnd (s, ops)))) = ops"
    by (simp_all add: StartHandler_parse_error)
next
  assume "FormValue form ''state'' = [] \<or> FormValue form ''code'' = []"
  then show "CallbackHandler store form s = (Respond 400 ''Error: missing state or code parameters.'', s)"
    and "snd (snd (CallbackHandler (recording store) form (s, ops))) = ops"
    by (simp_all add: CallbackHandler_missing)
next
  assume a: "Decode js body = Inr request
        \<and> (snd (fst (token rnd)) \<noteq> None \<or> snd (fst (token (snd (token rnd)))) \<noteq> None)"
  show "status (fst (StartHandler js baseURL store body rnd s)) = 500"
    and "snd (snd (StartHandler js baseURL store body rnd s)) = s"
    using a StartHandler_token_error [of js body request rnd baseURL store s] by simp_all
  show "snd (snd (snd (StartHandler js baseURL (recording store) body rnd (s, ops)))) = ops"
    using a StartHandler_token_error [of js body request rnd baseURL "recording store" "(s, ops)"] by simp
qed

theorem reject_before_any_store_operation_witness:
  \<open>Decode go_json ''not json'' = Inl syntax_error
   \<and> StartHandler go_json ''http://localhost:1123'' (mem_Store 0) ''not json'' [] NewMemStore
       = (Respond 400 ''{"error": "failed to parse request"}'', [], NewMemStore)
   \<and> snd (snd (snd (StartHandler go_json ''http://localhost:1123'' (recording (mem_Store 0)) ''not json'' []
                      (NewMemStore, [])))) = []
   \<and> FormValue [''state'' \<mapsto> [''f00d'']] ''code'' = []
   \<and> CallbackHandler (mem_Store 0) [''state'' \<mapsto> [''f00d'']] NewMemStore
       = (Respond 400 ''Error: missing state or code parameters.'', NewMemStore)
   \<and> snd (snd (CallbackHandler (recording (mem_Store 0)) [''state'' \<mapsto> [''f00d'']] (NewMemStore, []))) = []
   \<and> Decode go_json ''{}'' = Inr zero_startRequest
   \<and> snd (fst (token [Inl (Failure ''no entropy'')])) \<noteq> None
   \<and> status (fst (StartHandler go_json ''http://localhost:1123'' (mem_Store 0) ''{}''
                     [Inl (Failure ''no entropy'')] NewMemStore)) = 500
   \<and> snd (snd (StartHandler go_json ''http://localhost:1123'' (mem_Store 0) ''{}''
                     [Inl (Failure ''no entropy'')] NewMemStore)) = NewMemStore
   \<and> snd (snd (snd (StartHandler go_json ''http://localhost:1123'' (recording (mem_Store 0)) ''{}''
                     [Inl (Failure ''no entropy'')] (NewMemStore, [])))) = []\<close>
proof -
  have bad: "Decode go_json ''not json'' = Inl syntax_error"
    by code_simp
  have missing: "FormValue [''state'' \<mapsto> [''f00d'']] ''code'' = []"
    by (simp add: FormValue_def)
  have good: "Decode go_json ''{}'' = Inr zero_startRequest"
    by code_simp
  have dry: "snd (fst (token [Inl (Failure ''no entropy'')])) \<noteq> None"
    by (simp add: token_def)
  show ?thesis
    using bad missing good dry
      reject_before_any_store_operation
        [of go_json "''not json''" syntax_error "''http://localhost:1123''" "mem_Store 0" "[]" NewMemStore "[]"
            "[''state'' \<mapsto> [''f00d'']]" zero_startRequest]
      reject_before_any_store_operation
        [of go_json "''{}''" syntax_error "''http://localhost:1123''" "mem_Store 0"
            "[Inl (Failure ''no entropy'')]" NewMemStore "[]" "[''state'' \<mapsto> [''f00d'']]" zero_startRequest]
    by blast
qed

lemma RedirectHandler_store_failure:
  "fst (GetDel store (''i:'' @ key) s) = (raw, Some err) \<Longrightarrow> err \<noteq> redis_Nil \<Longrightarrow>
     fst (RedirectHandler js store key s) = Respond 500 ''Error: failed to fetch metadata''"
  by (cases "GetDel store (''i:'' @ key) s")
     (simp add: RedirectHandler_def StatusInternalServerError_def)

lemma CodeHandler_store_failure:
  \<open>fst (GetDel store (''s:'' @ key) s) = (c, Some err) \<Longrightarrow> err \<noteq> redis_Nil \<Longrightarrow>
     fst (CodeHandler store key s) = Respond 500 ''"error": "failed to fetch code"}''\<close>
  by (cases "GetDel store (''s:'' @ key) s")
     (simp add: CodeHandler_def StatusInternalServerError_def)

lemma StartHandler_store_failure:
  assumes "Decode js body = Inr request"
    and "token rnd = ((initialToken, None), rnd1)"
    and "token rnd1 = ((stateToken, None), rnd2)"
    and "Marshal_startRequest js
           (request\<lparr>Token := stateToken,
                    Manifest := (Manifest request)\<lparr>RedirectURL := baseURL @ ''/callback''\<rparr>\<rparr>) = Inr payload"
    and "fst (SetEx store (''i:'' @ initialToken) payload (10 * Minute) s) = Some err"
  shows \<open>fst (StartHandler js baseURL store body rnd s)
           = Respond 500 ''{"error": "failed to store payload"}''\<close>
  using assms
  by (cases "SetEx store (''i:'' @ initialToken) payload (10 * Minute) s")
     (simp add: StartHandler_def StatusInternalServerError_def)

lemma CallbackHandler_store_failure:
  "FormValue form ''state'' \<noteq> [] \<Longrightarrow> FormValue form ''code'' \<noteq> [] \<Longrightarrow>
   fst (SetEx store (''s:'' @ FormValue form ''state'') (FormValue form ''code'') (5 * Minute) s) = Some err \<Longrightarrow>
     fst (CallbackHandler store form s) = Respond 400 ''Error: failed to store code.''"
  by (cases "SetEx store (''s:'' @ FormValue form ''state'') (FormValue form ''code'') (5 * Minute) s")
     (simp add: CallbackHandler_def StatusBadRequest_def Let_def)

text \<open>
  C7. On a store whose operations fail with a transport error, \<open>CallbackHandler\<close> answers
  a well-formed callback with status 400, not 500. (\<open>StartHandler\<close>, \<open>RedirectHandler\<close>
  and \<open>CodeHandler\<close> answer 500 on a store failure: the three lemmas above.)
\<close>

theorem CallbackHandler_store_failure_is_400:
  "CallbackHandler (failing_Store ''dial tcp: connection refused'')
       [''state'' \<mapsto> [''f00d''], ''code'' \<mapsto> [''c0de'']] ()
     = (Respond 400 ''Error: failed to store code.'', ())"
  by (simp add: CallbackHandler_def failing_Store_def FormValue_def StatusBadRequest_def)

text \<open>
  C5. When \<open>RedirectHandler\<close> consumes a record that decodes to \<open>m\<close>, the form it renders
  has the action URL \<open>https://<host>/organizations/<slug>/settings/apps/new?state=<token>\<close>
  if the target type of \<open>m\<close> is \<open>org\<close>, and \<open>https://<host>/settings/apps/new?state=<token>\<close>
  for every other target type.
\<close>

theorem RedirectHandler_action_URL:
  "fst (GetDel store (''i:'' @ key) s) = (raw, None) \<Longrightarrow>
   Decode js raw = Inr m \<Longrightarrow>
   Marshal_manifest js (Manifest m) = Inr manifestJSON \<Longrightarrow>
     fst (RedirectHandler js store key s)
       = Execute \<lparr>tmpl_Manifest = manifestJSON,
                  tmpl_Action =
                    (if TargetType m = ''org''
                     then ''https://'' @ Host m @ ''/organizations/'' @ TargetSlug m
                            @ ''/settings/apps/new?state='' @ Token m
                     else ''https://'' @ Host m @ ''/settings/apps/new?state='' @ Token m)\<rparr>"
  by (cases "GetDel store (''i:'' @ key) s") (simp add: RedirectHandler_def actionURL_def)

theorem RedirectHandler_action_URL_witness:
  "fst (GetDel (mem_Store 5) (''i:'' @ ''cafe'')
          (snd (memStore_SetEx 0 ''i:cafe'' record_org (10 * Minute) NewMemStore))) = (record_org, None)
   \<and> Decode go_json record_org
       = Inr \<lparr>Manifest = demo_manifest, TargetType = ''org'', TargetSlug = ''acme'',
               Host = ''github.example'', Token = ''f00d''\<rparr>
   \<and> Marshal_manifest go_json demo_manifest = Inr demo_manifest_json
   \<and> fst (RedirectHandler go_json (mem_Store 5) ''cafe''
             (snd (memStore_SetEx 0 ''i:cafe'' record_org (10 * Minute) NewMemStore)))
       = Execute \<lparr>tmpl_Manifest = demo_manifest_json,
                  tmpl_Action = ''https://github.example/organizations/acme/settings/apps/new?state=f00d''\<rparr>
   \<and> fst (GetDel (mem_Store 5) (''i:'' @ ''cafe'')
          (snd (memStore_SetEx 0 ''i:cafe'' record_team (10 * Minute) NewMemStore))) = (record_team, None)
   \<and> Decode go_json record_team
       = Inr \<lparr>Manifest = demo_manifest, TargetType = ''team'', TargetSlug = ''acme'',
               Host = ''github.example'', Token = ''f00d''\<rparr>
   \<and> fst (RedirectHandler go_json (mem_Store 5) ''cafe''
             (snd (memStore_SetEx 0 ''i:cafe'' record_team (10 * Minute) NewMemStore)))
       = Execute \<lparr>tmpl_Manifest = demo_manifest_json,
                  tmpl_Action = ''https://github.example/settings/apps/new?state=f00d''\<rparr>"
proof -
  let ?org = "\<lparr>Manifest = demo_manifest, TargetType = ''org'', TargetSlug = ''acme'',
               Host = ''github.example'', Token = ''f00d''\<rparr>"
  let ?team = "\<lparr>Manifest = demo_manifest, TargetType = ''team'', TargetSlug = ''acme'',
               Host = ''github.example'', Token = ''f00d''\<rparr>"
  have g1: "fst (GetDel (mem_Store 5) (''i:'' @ ''cafe'')
          (snd (memStore_SetEx 0 ''i:cafe'' record_org (10 * Minute) NewMemStore))) = (record_org, None)"
    by (simp add: mem_Store_def memStore_GetDel_def memStore_SetEx_def Minute_def)
  have g2: "fst (GetDel (mem_Store 5) (''i:'' @ ''cafe'')
          (snd (memStore_SetEx 0 ''i:cafe'' record_team (10 * Minute) NewMemStore))) = (record_team, None)"
    by (simp add: mem_Store_def memStore_GetDel_def memStore_SetEx_def Minute_def)
  have d1: "Decode go_json record_org = Inr ?org"
    by code_simp
  have d2: "Decode go_json record_team = Inr ?team"
    by code_simp
  have m: "Marshal_manifest go_json demo_manifest = Inr demo_manifest_json"
    by code_simp
  have m1: "Marshal_manifest go_json (Manifest ?org) = Inr demo_manifest_json"
    and m2: "Marshal_manifest go_json (Manifest ?team) = Inr demo_manifest_json"
    using m by simp_all
  show ?thesis
    using g1 g2 d1 d2 m
      RedirectHandler_action_URL [OF g1 d1 m1]
      RedirectHandler_action_URL [OF g2 d2 m2]
    by simp
qed

lemma StartHandler_ops:
  "snd (snd (snd (StartHandler js baseURL (recording store) body rnd (s, ops)))) = ops
   \<or> (\<exists>initialToken payload.
         snd (snd (snd (StartHandler js baseURL (recording store) body rnd (s, ops))))
           = ops @ [Op_SetEx (''i:'' @ initialToken) payload (10 * Minute)])"
  by (auto simp: StartHandler_def recording_SetEx split: sum.splits prod.splits option.splits)

lemma RedirectHandler_ops:
  "snd (snd (RedirectHandler js (recording store) key (s, ops))) = ops @ [Op_GetDel (''i:'' @ key)]"
  by (auto simp: RedirectHandler_def recording_GetDel split: sum.splits prod.splits option.splits)

lemma CallbackHandler_ops:
  "snd (snd (CallbackHandler (recording store) form (s, ops))) = ops
   \<or> snd (snd (CallbackHandler (recording store) form (s, ops)))
       = ops @ [Op_SetEx (''s:'' @ FormValue form ''state'') (FormValue form ''code'') (5 * Minute)]"
  by (auto simp: CallbackHandler_def recording_SetEx Let_def split: prod.splits option.splits)

lemma CodeHandler_ops:
  "snd (snd (CodeHandler (recording store) key (s, ops))) = ops @ [Op_GetDel (''s:'' @ key)]"
  by (auto simp: CodeHandler_def recording_GetDel split: prod.splits option.splits)

lemma RedirectHandler_mem:
  "snd (RedirectHandler js (mem_Store now) key ms) = snd (memStore_GetDel now (''i:'' @ key) ms)"
  by (auto simp: RedirectHandler_def mem_Store_def split: sum.splits prod.splits option.splits)

lemma CodeHandler_mem:
  "snd (CodeHandler (mem_Store now) key ms) = snd (memStore_GetDel now (''s:'' @ key) ms)"
  by (auto simp: CodeHandler_def mem_Store_def split: prod.splits option.splits)

text \<open>
  C10. A key \<open>"i:" + a\<close> never equals a key \<open>"s:" + b\<close>. On any store, \<open>StartHandler\<close>
  performs no operation or one \<open>SetEx\<close> on a key \<open>"i:" + token\<close>, \<open>RedirectHandler\<close>
  exactly one \<open>GetDel\<close> on \<open>"i:" + key\<close>, \<open>CallbackHandler\<close> no operation or one
  \<open>SetEx\<close> on \<open>"s:" + state\<close>, and \<open>CodeHandler\<close> exactly one \<open>GetDel\<close> on
  \<open>"s:" + key\<close>. On the in-process store, \<open>RedirectHandler\<close> leaves every entry under
  an \<open>"s:"\<close> key as it is, and \<open>CodeHandler\<close> every entry under an \<open>"i:"\<close> key.
\<close>

theorem token_namespaces_disjoint:
  "''i:'' @ a \<noteq> ''s:'' @ b
   \<and> (snd (snd (snd (StartHandler js baseURL (recording store) body rnd (s, [])))) = []
        \<or> (\<exists>initialToken payload.
              snd (snd (snd (StartHandler js baseURL (recording store) body rnd (s, []))))
                = [Op_SetEx (''i:'' @ initialToken) payload (10 * Minute)]))
   \<and> snd (snd (RedirectHandler js (recording store) key (s, []))) = [Op_GetDel (''i:'' @ key)]
   \<and> (snd (snd (CallbackHandler (recording store) form (s, []))) = []
        \<or> snd (snd (CallbackHandler (recording store) form (s, [])))
            = [Op_SetEx (''s:'' @ FormValue form ''state'') (FormValue form ''code'') (5 * Minute)])
   \<and> snd (snd (CodeHandler (recording store) key (s, []))) = [Op_GetDel (''s:'' @ key)]
   \<and> d (snd (RedirectHandler js (mem_Store now) key ms)) (''s:'' @ b) = d ms (''s:'' @ b)
   \<and> d (snd (CodeHandler (mem_Store now) key ms)) (''i:'' @ a) = d ms (''i:'' @ a)"
proof (intro conjI)
  show "''i:'' @ a \<noteq> ''s:'' @ b" by simp
  show "snd (snd (snd (StartHandler js baseURL (recording store) body rnd (s, [])))) = []
        \<or> (\<exists>initialToken payload.
              snd (snd (snd (StartHandler js baseURL (recording store) body rnd (s, []))))
                = [Op_SetEx (''i:'' @ initialToken) payload (10 * Minute)])"
    using StartHandler_ops [of js baseURL store body rnd s "[]"] by simp
  show "snd (snd (RedirectHandler js (recording store) key (s, []))) = [Op_GetDel (''i:'' @ key)]"
    by (simp add: RedirectHandler_ops)
  show "snd (snd (CallbackHandler (recording store) form (s, []))) = []
        \<or> snd (snd (CallbackHandler (recording store) form (s, [])))
            = [Op_SetEx (''s:'' @ FormValue form ''state'') (FormValue form ''code'') (5 * Minute)]"
    using CallbackHandler_ops [of store form s "[]"] by simp
  show "snd (snd (CodeHandler (recording store) key (s, []))) = [Op_GetDel (''s:'' @ key)]"
    by (simp add: CodeHandler_ops)
  show "d (snd (RedirectHandler js (mem_Store now) key ms)) (''s:'' @ b) = d ms (''s:'' @ b)"
    by (simp add: RedirectHandler_mem GetDel_other)
  show "d (snd (CodeHandler (mem_Store now) key ms)) (''i:'' @ a) = d ms (''i:'' @ a)"
    by (simp add: CodeHandler_mem GetDel_other)
qed

lemma CodeHandler_found:
  \<open>fst (GetDel store (''s:'' @ key) s) = (code, None) \<Longrightarrow>
     fst (CodeHandler store key s) = Respond 200 (''{"code": "'' @ code @ ''"}'')\<close>
  by (cases "GetDel store (''s:'' @ key) s") (simp add: CodeHandler_def StatusOK_def)

lemma CodeHandler_not_found:
  \<open>fst (GetDel store (''s:'' @ key) s) = (c, Some redis_Nil) \<Longrightarrow>
     fst (CodeHandler store key s)
       = Respond 404 ''{"error": "failed to find code for the given key"}''\<close>
  by (cases "GetDel store (''s:'' @ key) s") (simp add: CodeHandler_def StatusNotFound_def)

lemma not_found_body_is_json:
  \<open>json_value ''{"error": "failed to find code for the given key"}''
     = Some (JObject [(''error'', JString ''failed to find code for the given key'')], [])\<close>
  by code_simp

lemma scan_string_plain:
  "list_all plain c \<Longrightarrow> scan_string (c @ CHR 0x22 # rest) = Some (c, rest)"
  by (induction c) (simp_all add: plain_def)

lemma unquote_plain: "list_all plain c \<Longrightarrow> unquote c = c"
  by (induction c) (simp_all add: plain_def)

lemma code_body_is_json:
  assumes "list_all plain code"
  shows \<open>json_value (''{"code": "'' @ code @ ''"}'') = Some (JObject [(''code'', JString code)], [])\<close>
proof -
  have fuel: \<open>2 * length (''{"code": "'' @ code @ ''"}'') + 2 = Suc (Suc (Suc (23 + 2 * length code)))\<close>
    by simp
  have str: "scan_string (code @ [CHR 0x22, CHR ''}'']) = Some (code, ''}'')"
    using scan_string_plain [OF assms, of "''}''"] by simp
  have main: \<open>parse_value (Suc (Suc (Suc k))) (''{"code": "'' @ code @ ''"}'')
                = Some (JObject [(''code'', JString code)], [])\<close> for k
    by (simp add: skip_space_def is_space_def str)
  show ?thesis
    by (simp only: json_value_def fuel main)
qed

text \<open>
  C8. \<open>CodeHandler\<close> pastes the stored code between quotes without escaping it. For the
  code \<open>a"b\<close>, stored by a callback, it answers 200 with the body \<open>{"code": "a"b"}\<close>,
  which is not a JSON document. (For a code of plain characters the body is the JSON object
  with that code, \<open>code_body_is_json\<close>; an absent record gives 404 with a JSON error
  object, a store failure 500: \<open>CodeHandler_not_found\<close>, \<open>CodeHandler_store_failure\<close>.)
\<close>

theorem CodeHandler_code_not_escaped:
  \<open>fst (CodeHandler (mem_Store 2) ''f00d''
          (snd (CallbackHandler (mem_Store 1) [''state'' \<mapsto> [''f00d''], ''code'' \<mapsto> [''a"b'']] NewMemStore)))
     = Respond 200 ''{"code": "a"b"}''
   \<and> json_value ''{"code": "a"b"}'' = None\<close>
proof
  show \<open>fst (CodeHandler (mem_Store 2) ''f00d''
          (snd (CallbackHandler (mem_Store 1) [''state'' \<mapsto> [''f00d''], ''code'' \<mapsto> [''a"b'']] NewMemStore)))
     = Respond 200 ''{"code": "a"b"}''\<close>
    by (simp add: CodeHandler_def CallbackHandler_def FormValue_def mem_Store_def memStore_SetEx_def
        memStore_GetDel_def NewMemStore_def Minute_def StatusOK_def)
  show \<open>json_value ''{"code": "a"b"}'' = None\<close>
    by code_simp
qed

lemma StartHandler_stores:
  assumes "Decode js body = Inr request"
    and "token rnd = ((initialToken, None), rnd1)"
    and "token rnd1 = ((stateToken, None), rnd2)"
    and "Marshal_startRequest js
           (request\<lparr>Token := stateToken,
                    Manifest := (Manifest request)\<lparr>RedirectURL := baseURL @ ''/callback''\<rparr>\<rparr>) = Inr payload"
  shows "snd (snd (StartHandler js baseURL (mem_Store now) body rnd ms))
           = snd (memStore_SetEx now (''i:'' @ initialToken) payload (10 * Minute) ms)"
  using assms
  by (simp add: StartHandler_def mem_Store_def memStore_SetEx_def split: sum.splits)

text \<open>
  C4 (as amended). \<open>StartHandler\<close> decodes the body into the typed \<open>startRequest\<close>, sets the
  manifest's \<open>RedirectURL\<close> to \<open>baseURL/callback\<close> and the token, and stores the
  serialisation of that struct under \<open>"i:" + initialToken\<close> for ten minutes. A
  \<open>RedirectHandler\<close> call for that token within the ten minutes decodes the record and
  renders the serialisation of its manifest; when the library serialises the manifest read
  back from the record as it serialises the manifest that was stored, the form carries the
  serialisation of the typed manifest with \<open>RedirectURL = baseURL/callback\<close>.
\<close>

theorem Start_Redirect_manifest:
  assumes "Decode js body = Inr request"
    and "token rnd = ((initialToken, None), rnd1)"
    and "token rnd1 = ((stateToken, None), rnd2)"
    and "Marshal_startRequest js
           (request\<lparr>Token := stateToken,
                    Manifest := (Manifest request)\<lparr>RedirectURL := baseURL @ ''/callback''\<rparr>\<rparr>) = Inr payload"
    and "Decode js payload = Inr m"
    and "Marshal_manifest js (Manifest m)
           = Marshal_manifest js ((Manifest request)\<lparr>RedirectURL := baseURL @ ''/callback''\<rparr>)"
    and "Marshal_manifest js ((Manifest request)\<lparr>RedirectURL := baseURL @ ''/callback''\<rparr>) = Inr manifestJSON"
    and "now' \<le> now + 10 * Minute"
  shows "d (snd (snd (StartHandler js baseURL (mem_Store now) body rnd ms))) (''i:'' @ initialToken)
           = Some \<lparr>exp = now + 10 * Minute, val = payload\<rparr>
         \<and> fst (RedirectHandler js (mem_Store now') initialToken
                  (snd (snd (StartHandler js baseURL (mem_Store now) body rnd ms))))
             = Execute \<lparr>tmpl_Manifest = manifestJSON, tmpl_Action = actionURL m\<rparr>"
proof -
  let ?ms1 = "snd (snd (StartHandler js baseURL (mem_Store now) body rnd ms))"
  have stored: "d ?ms1 (''i:'' @ initialToken) = Some \<lparr>exp = now + 10 * Minute, val = payload\<rparr>"
    using StartHandler_stores [OF assms(1-4)] SetEx_installs by simp
  have "fst (memStore_GetDel now' (''i:'' @ initialToken) ?ms1) = (payload, None)"
    using GetDel_present [OF stored, of now'] assms(8) by simp
  then have got: "fst (GetDel (mem_Store now') (''i:'' @ initialToken) ?ms1) = (payload, None)"
    by (simp add: mem_Store_def)
  have "Marshal_manifest js (Manifest m) = Inr manifestJSON"
    using assms(6,7) by simp
  then have "fst (RedirectHandler js (mem_Store now') initialToken ?ms1)
             = Execute \<lparr>tmpl_Manifest = manifestJSON, tmpl_Action = actionURL m\<rparr>"
    using got assms(5)
    by (cases "GetDel (mem_Store now') (''i:'' @ initialToken) ?ms1") (simp add: RedirectHandler_def)
  then show ?thesis using stored by simp
qed

theorem Start_Redirect_manifest_witness:
  "Decode go_json start_body
     = Inr \<lparr>Manifest = demo_manifest\<lparr>HookAttributes := None, RedirectURL := ''https://caller.example/cb''\<rparr>,
            TargetType = ''user'', TargetSlug = ''alice'', Host = ''github.example'', Token = []\<rparr>
   \<and> token two_tokens = ((token_ab, None), [Inr (replicate 32 0xcd)])
   \<and> token [Inr (replicate 32 0xcd)] = ((token_cd, None), [])
   \<and> Marshal_startRequest go_json
        \<lparr>Manifest = demo_manifest\<lparr>HookAttributes := None\<rparr>,
         TargetType = ''user'', TargetSlug = ''alice'', Host = ''github.example'', Token = token_cd\<rparr>
       = Inr record_user
   \<and> Decode go_json record_user
       = Inr \<lparr>Manifest = demo_manifest,
              TargetType = ''user'', TargetSlug = ''alice'', Host = ''github.example'', Token = token_cd\<rparr>
   \<and> Marshal_manifest go_json demo_manifest = Inr demo_manifest_json
   \<and> Marshal_manifest go_json (demo_manifest\<lparr>HookAttributes := None\<rparr>) = Inr demo_manifest_json
   \<and> d (snd (snd (StartHandler go_json ''http://localhost:1123'' (mem_Store 0) start_body two_tokens NewMemStore)))
         (''i:'' @ token_ab)
       = Some \<lparr>exp = 0 + 10 * Minute, val = record_user\<rparr>
   \<and> fst (RedirectHandler go_json (mem_Store 5) token_ab
             (snd (snd (StartHandler go_json ''http://localhost:1123'' (mem_Store 0) start_body two_tokens NewMemStore))))
       = Execute \<lparr>tmpl_Manifest = demo_manifest_json,
                  tmpl_Action = ''https://github.example/settings/apps/new?state='' @ token_cd\<rparr>"
proof -
  let ?req = "\<lparr>Manifest = demo_manifest\<lparr>HookAttributes := None, RedirectURL := ''https://caller.example/cb''\<rparr>,
            TargetType = ''user'', TargetSlug = ''alice'', Host = ''github.example'', Token = []\<rparr>"
  let ?m = "\<lparr>Manifest = demo_manifest,
              TargetType = ''user'', TargetSlug = ''alice'', Host = ''github.example'', Token = token_cd\<rparr>"
  have h1: "Decode go_json start_body = Inr ?req"
    by code_simp
  have h2: "token two_tokens = ((token_ab, None), [Inr (replicate 32 0xcd)])"
    by code_simp
  have h3: "token [Inr (replicate 32 0xcd)] = ((token_cd, None), [])"
    by code_simp
  have stored_request:
    "?req\<lparr>Token := token_cd, Manifest := (Manifest ?req)\<lparr>RedirectURL := ''http://localhost:1123'' @ ''/callback''\<rparr>\<rparr>
       = \<lparr>Manifest = demo_manifest\<lparr>HookAttributes := None\<rparr>,
          TargetType = ''user'', TargetSlug = ''alice'', Host = ''github.example'', Token = token_cd\<rparr>"
    by (simp add: demo_manifest_def)
  have m4: "Marshal_startRequest go_json
        \<lparr>Manifest = demo_manifest\<lparr>HookAttributes := None\<rparr>,
         TargetType = ''user'', TargetSlug = ''alice'', Host = ''github.example'', Token = token_cd\<rparr>
       = Inr record_user"
    by code_simp
  have h4: "Marshal_startRequest go_json
       (?req\<lparr>Token := token_cd, Manifest := (Manifest ?req)\<lparr>RedirectURL := ''http://localhost:1123'' @ ''/callback''\<rparr>\<rparr>)
       = Inr record_user"
    using m4 by (simp only: stored_request)
  have h5: "Decode go_json record_user = Inr ?m"
    by code_simp
  have m6: "Marshal_manifest go_json demo_manifest = Inr demo_manifest_json"
    by code_simp
  have m7: "Marshal_manifest go_json (demo_manifest\<lparr>HookAttributes := None\<rparr>) = Inr demo_manifest_json"
    by code_simp
  have stored_manifest:
    "(Manifest ?req)\<lparr>RedirectURL := ''http://localhost:1123'' @ ''/callback''\<rparr> = demo_manifest\<lparr>HookAttributes := None\<rparr>"
    by (simp add: demo_manifest_def)
  have h7: "Marshal_manifest go_json ((Manifest ?req)\<lparr>RedirectURL := ''http://localhost:1123'' @ ''/callback''\<rparr>)
       = Inr demo_manifest_json"
    using m7 by (simp only: stored_manifest)
  have h6: "Marshal_manifest go_json (Manifest ?m)
       = Marshal_manifest go_json ((Manifest ?req)\<lparr>RedirectURL := ''http://localhost:1123'' @ ''/callback''\<rparr>)"
    using m6 h7 by simp
  have h8: "(5::int) \<le> 0 + 10 * Minute"
    by (simp add: Minute_def)
  have url: "actionURL ?m = ''https://github.example/settings/apps/new?state='' @ token_cd"
    by (simp add: actionURL_def)
  show ?thesis
    using h1 h2 h3 m4 h5 m6 m7 url
      Start_Redirect_manifest [OF h1 h2 h3 h4 h5 h6 h7 h8, of NewMemStore]
    by simp
qed

text \<open>
  The claim as stated fails on that request: the manifest in the form is not the manifest
  the caller supplied, neither as text nor as a JSON document (its \<open>redirect_url\<close> is
  replaced, \<open>setup_url\<close> is gone, the absent fields appear with zero values).
\<close>

theorem manifest_not_verbatim_counterexample:
  "fst (RedirectHandler go_json (mem_Store 5) token_ab
          (snd (snd (StartHandler go_json ''http://localhost:1123'' (mem_Store 0) start_body two_tokens NewMemStore))))
     = Execute \<lparr>tmpl_Manifest = demo_manifest_json,
                tmpl_Action = ''https://github.example/settings/apps/new?state='' @ token_cd\<rparr>
   \<and> demo_manifest_json \<noteq> supplied_manifest
   \<and> json_value demo_manifest_json \<noteq> json_value supplied_manifest"
  by code_simp


end
